theory Spec2Isabelle
  imports Main "HOL-Library.Word"
begin

unbundle bit_operations_syntax

section \<open>TrackPro: the calibration engine\<close>

text \<open>
  A shallow embedding of the calibration logic of TrackPro: the Qt front-end
  (\<^verbatim>\<open>GUI/mainwindow.cpp\<close>), the Win32 front-end (\<^verbatim>\<open>src/main.cpp\<close>) and the registry
  writer (\<^verbatim>\<open>src/RegistryHandler.cpp\<close>).

  Integer types. \<^verbatim>\<open>LONG\<close> (the raw samples and the bounds of an \<^verbatim>\<open>AxisRange\<close>) is a signed
  32-bit integer. Its values are modelled as those \<open>int\<close> for which \<open>is_LONG\<close> holds, and
  its arithmetic with the wrap-around written out (\<open>long_sub\<close>, \<open>long_mul\<close>, \<open>long_div\<close>):
  the C++ standard leaves signed overflow undefined, and the 32-bit instructions that
  the program is compiled to wrap around in two's complement. \<^verbatim>\<open>DWORD\<close> (the fields of the
  registry record) is an unsigned 32-bit integer whose arithmetic wraps; it is modelled
  as \<open>32 word\<close>.
  \<^verbatim>\<open>std::wstring\<close> is modelled as \<open>string\<close>: the program only ever builds and inspects
  ASCII text.
\<close>

subsection \<open>Data\<close>

type_synonym LONG = int
type_synonym DWORD = "32 word"
type_synonym byte = "8 word"

definition is_LONG :: "int \<Rightarrow> bool" where
  "is_LONG n = (- 2147483648 \<le> n \<and> n \<le> 2147483647)"

text \<open>\<^verbatim>\<open>struct AxisRange { LONG min; LONG max; }\<close>\<close>

record AxisRange =
  min_r :: LONG
  max_r :: LONG

text \<open>
  \<^verbatim>\<open>struct CalibrationBackup { AxisRange x, z, ry; }\<close> (the fields are named
  \<open>x_range\<close>, \<open>z_range\<close>, \<open>ry_range\<close> here).
\<close>

record CalibrationBackup =
  x_range :: AxisRange
  z_range :: AxisRange
  ry_range :: AxisRange

text \<open>
  \<^verbatim>\<open>#pragma pack(1) struct AxisCalibration { DWORD min, mid, max, minDeadzone, maxDeadzone; }\<close>
\<close>

record AxisCalibration =
  min_c :: DWORD
  mid_c :: DWORD
  max_c :: DWORD
  minDeadzone :: DWORD
  maxDeadzone :: DWORD

text \<open>
  What can stop an operation: the two exceptions of \<^verbatim>\<open>std::stoul\<close>, and the two hardware
  traps of an integer division, for a zero divisor and for the quotient \<open>- 2^31 / - 1\<close>
  that does not fit.
\<close>

datatype failure = invalid_argument | out_of_range | divide_by_zero | integer_overflow

subsection \<open>The integer normaliser\<close>

text \<open>
  Arithmetic on \<^verbatim>\<open>LONG\<close>. A difference or product that leaves the 32 bits wraps around.
  The division truncates towards zero; it traps on a zero divisor, and on \<open>- 2^31 / - 1\<close>.
\<close>

definition wrap_LONG :: "int \<Rightarrow> LONG" where
  "wrap_LONG n = (n + 2147483648) mod 4294967296 - 2147483648"

definition long_sub :: "LONG \<Rightarrow> LONG \<Rightarrow> LONG" where
  "long_sub a b = wrap_LONG (a - b)"

definition long_mul :: "LONG \<Rightarrow> LONG \<Rightarrow> LONG" where
  "long_mul a b = wrap_LONG (a * b)"

definition long_div :: "LONG \<Rightarrow> LONG \<Rightarrow> failure + LONG" where
  "long_div a b =
     (if b = 0 then Inl divide_by_zero
      else if a = - 2147483648 \<and> b = - 1 then Inl integer_overflow
      else Inr (sgn a * sgn b * (\<bar>a\<bar> div \<bar>b\<bar>)))"

text \<open>
  The lambda \<^verbatim>\<open>updateAxis\<close> of \<^verbatim>\<open>MainWindow::updateValues\<close>; the result is the value of
  \<^verbatim>\<open>calPercent\<close> that is shown on the label and the progress bar.
\<close>

definition updateAxis :: "LONG \<Rightarrow> AxisRange \<Rightarrow> failure + LONG" where
  "updateAxis raw rng =
     (if raw \<le> min_r rng then Inr 0
      else if raw \<ge> max_r rng then Inr 100
      else long_div (long_mul (long_sub raw (min_r rng)) 100)
             (long_sub (max_r rng) (min_r rng)))"

text \<open>
  The same computation in the Win32 front-end, \<^verbatim>\<open>WindowProc\<close>, case \<^verbatim>\<open>WM_USER\<close>:
  \<^verbatim>\<open>(raw <= min) ? 0 : (raw >= max) ? 100 : ((raw - min) * 100) / (max - min)\<close>.
\<close>

definition calPercent :: "LONG \<Rightarrow> AxisRange \<Rightarrow> failure + LONG" where
  "calPercent raw rng =
     (if raw \<le> min_r rng then Inr 0
      else (if raw \<ge> max_r rng then Inr 100
      else long_div (long_mul (long_sub raw (min_r rng)) 100)
             (long_sub (max_r rng) (min_r rng))))"

subsection \<open>Validation\<close>

text \<open>
  \<^verbatim>\<open>MainWindow::validateAxisRange\<close> and \<^verbatim>\<open>MainWindow::isValueUnusual\<close>. Each returns its
  \<^verbatim>\<open>bool\<close> together with the message box it shows, if any.
\<close>

datatype warning = Invalid_Range | Small_Range | Unusual_Value

definition validateAxisRange :: "AxisRange \<Rightarrow> bool \<times> warning option" where
  "validateAxisRange rng =
     (if min_r rng \<ge> max_r rng then (False, Some Invalid_Range)
      else if long_sub (max_r rng) (min_r rng) < 409 then (False, Some Small_Range)
      else (True, None))"

definition isValueUnusual :: "LONG \<Rightarrow> bool \<times> warning option" where
  "isValueUnusual v =
     (if v < 100 \<or> v > 3995 then (True, Some Unusual_Value) else (False, None))"

subsection \<open>Text and numbers\<close>

text \<open>
  \<^verbatim>\<open>std::to_wstring\<close> on an integer: the decimal digits, after a minus sign for a negative
  number.
\<close>

definition digit_char :: "nat \<Rightarrow> char" where
  "digit_char d = ''0123456789'' ! d"

fun decimal :: "nat \<Rightarrow> string" where
  "decimal n = (if n < 10 then [digit_char n] else decimal (n div 10) @ [digit_char (n mod 10)])"

declare decimal.simps [simp del]

definition to_wstring :: "int \<Rightarrow> string" where
  "to_wstring n = (if n < 0 then CHR ''-'' # decimal (nat (- n)) else decimal (nat n))"

text \<open>
  \<^verbatim>\<open>std::stoul\<close> (base 10, no position wanted), which is \<^verbatim>\<open>wcstoul\<close> with its two failures
  turned into exceptions: white space is skipped, one sign is accepted, the longest run of
  digits is read; no digit at all is \<^verbatim>\<open>std::invalid_argument\<close>, a magnitude above
  \<^verbatim>\<open>ULONG_MAX\<close> (32 bits on Windows) is \<^verbatim>\<open>std::out_of_range\<close>, and a minus sign negates
  the result in the unsigned type. The result is stored in a \<^verbatim>\<open>DWORD\<close>.
\<close>

definition iswspace :: "char \<Rightarrow> bool" where
  "iswspace c = (c = CHR '' '' \<or> (9 \<le> (of_char c :: nat) \<and> (of_char c :: nat) \<le> 13))"

definition iswdigit :: "char \<Rightarrow> bool" where
  "iswdigit c = (48 \<le> (of_char c :: nat) \<and> (of_char c :: nat) \<le> 57)"

definition digit_value :: "char \<Rightarrow> nat" where
  "digit_value c = of_char c - 48"

definition digits_value :: "string \<Rightarrow> nat" where
  "digits_value ds = foldl (\<lambda>a c. 10 * a + digit_value c) 0 ds"

definition stoul :: "string \<Rightarrow> failure + DWORD" where
  "stoul str =
     (let s1 = dropWhile iswspace str;
          negative = (s1 \<noteq> [] \<and> hd s1 = CHR ''-'');
          s2 = (if s1 \<noteq> [] \<and> (hd s1 = CHR ''-'' \<or> hd s1 = CHR ''+'') then tl s1 else s1);
          ds = takeWhile iswdigit s2
      in if ds = [] then Inl invalid_argument
         else if digits_value ds > 4294967295 then Inl out_of_range
         else Inr (if negative then - word_of_nat (digits_value ds)
                   else word_of_nat (digits_value ds)))"

subsection \<open>The registry writer\<close>

text \<open>
  The registry under \<^verbatim>\<open>HKEY_CURRENT_USER\<close>: a key path leads to the named values of that
  key. A key that is absent cannot be opened.
\<close>

type_synonym registry = "string \<rightharpoonup> (string \<rightharpoonup> byte list)"

text \<open>
  The path literal of \<^verbatim>\<open>saveCalibrationToRegistry\<close>; its separator is the backslash,
  character \<open>0x5C\<close>.
\<close>

definition backslash :: char where
  "backslash = CHR 0x5C"

definition save_path_literal :: string where
  "save_path_literal =
     ''System'' @ backslash # ''CurrentControlSet'' @ backslash # ''Control'' @ backslash #
     ''MediaProperties'' @ backslash # ''PrivateProperties'' @ backslash # ''DirectInput'' @
     backslash # ''VID_1DD2&PID_2735'' @ backslash # ''Calibration'' @ backslash # ''0'' @
     backslash # ''Type'' @ backslash # ''Axes'' @ [backslash]"

text \<open>The \<^verbatim>\<open>switch\<close> that turns the axis index into \<^verbatim>\<open>registryIndex\<close>.\<close>

definition registryIndex :: "int \<Rightarrow> int" where
  "registryIndex axisIndex =
     (if axisIndex = 0 then 0
      else if axisIndex = 1 then 2
      else if axisIndex = 2 then 4
      else 0)"

definition axisPath :: "int \<Rightarrow> string" where
  "axisPath axisIndex = save_path_literal @ to_wstring (registryIndex axisIndex)"

text \<open>
  The four locals \<^verbatim>\<open>min\<close>, \<^verbatim>\<open>max\<close>, \<^verbatim>\<open>minDeadzone\<close>, \<^verbatim>\<open>maxDeadzone\<close> of the parser, with
  their initial values.
\<close>

record parsed =
  p_min :: DWORD
  p_max :: DWORD
  p_minDeadzone :: DWORD
  p_maxDeadzone :: DWORD

definition parsed_init :: parsed where
  "parsed_init = \<lparr>p_min = 0, p_max = 4095, p_minDeadzone = 0, p_maxDeadzone = 0\<rparr>"

text \<open>\<^verbatim>\<open>token.find(p) == 0\<close>: the token begins with \<open>p\<close>.\<close>

definition starts_with :: "string \<Rightarrow> string \<Rightarrow> bool" where
  "starts_with token p = (take (length p) token = p)"

text \<open>An assignment \<^verbatim>\<open>field = std::stoul(...)\<close>, which the exception may prevent.\<close>

definition assign :: "(DWORD \<Rightarrow> parsed) \<Rightarrow> failure + DWORD \<Rightarrow> failure + parsed" where
  "assign upd r = (case r of Inl e \<Rightarrow> Inl e | Inr n \<Rightarrow> Inr (upd n))"

text \<open>
  One \<^verbatim>\<open>if\<close>/\<^verbatim>\<open>else if\<close> chain of the parser; the prefixes and the offsets given to
  \<^verbatim>\<open>substr\<close> are those of the chain.
\<close>

definition token_chain ::
  "string \<Rightarrow> nat \<Rightarrow> string \<Rightarrow> nat \<Rightarrow> string \<Rightarrow> nat \<Rightarrow> string \<Rightarrow> nat \<Rightarrow>
   string \<Rightarrow> parsed \<Rightarrow> failure + parsed" where
  "token_chain minP minO maxP maxO minDzP minDzO maxDzP maxDzO token v =
     (if starts_with token minP then assign (\<lambda>n. v\<lparr>p_min := n\<rparr>) (stoul (drop minO token))
      else if starts_with token maxP then assign (\<lambda>n. v\<lparr>p_max := n\<rparr>) (stoul (drop maxO token))
      else if starts_with token minDzP
        then assign (\<lambda>n. v\<lparr>p_minDeadzone := n\<rparr>) (stoul (drop minDzO token))
      else if starts_with token maxDzP
        then assign (\<lambda>n. v\<lparr>p_maxDeadzone := n\<rparr>) (stoul (drop maxDzO token))
      else Inr v)"

text \<open>The inner \<^verbatim>\<open>switch (axisIndex)\<close> of the parsing loop, applied to one token.\<close>

definition parse_token :: "int \<Rightarrow> string \<Rightarrow> parsed \<Rightarrow> failure + parsed" where
  "parse_token axisIndex token v =
     (if axisIndex = 0 then
        token_chain ''MinX='' 5 ''MaxX='' 5 ''MinDeadzoneX='' 12 ''MaxDeadzoneX='' 12 token v
      else if axisIndex = 1 then
        token_chain ''MinZ='' 5 ''MaxZ='' 5 ''MinDeadzoneZ='' 12 ''MaxDeadzoneZ='' 12 token v
      else if axisIndex = 2 then
        token_chain ''MinRY='' 6 ''MaxRY='' 6 ''MinDeadzoneRY='' 13 ''MaxDeadzoneRY='' 13 token v
      else Inr v)"

text \<open>
  \<^verbatim>\<open>calibrationData.find(L";", pos)\<close> and the \<^verbatim>\<open>substr\<close> after it, on the text from \<open>pos\<close>
  on: the token before the first semicolon and the text after that semicolon.
\<close>

definition find_semicolon :: "string \<Rightarrow> (string \<times> string) option" where
  "find_semicolon rest =
     (if CHR '';'' \<in> set rest
      then Some (takeWhile (\<lambda>c. c \<noteq> CHR '';'') rest, tl (dropWhile (\<lambda>c. c \<noteq> CHR '';'') rest))
      else None)"

text \<open>The \<^verbatim>\<open>while\<close> loop of the parser, on the text from \<open>pos\<close> on.\<close>

function parse_tokens :: "int \<Rightarrow> string \<Rightarrow> parsed \<Rightarrow> failure + parsed" where
  "parse_tokens axisIndex rest v =
     (case find_semicolon rest of
        None \<Rightarrow> Inr v
      | Some (token, rest') \<Rightarrow>
          (case parse_token axisIndex token v of
             Inl e \<Rightarrow> Inl e
           | Inr v' \<Rightarrow> parse_tokens axisIndex rest' v'))"
  by pat_completeness auto
termination
proof (relation "measure (\<lambda>(axisIndex, rest, v). length rest)")
  show "wf (measure (\<lambda>(axisIndex, rest, v). length rest))"
    by simp
next
  fix axisIndex :: int and rest :: string and v :: parsed
    and tr :: "string \<times> string" and token rest' :: string and v' :: parsed
  assume found: "find_semicolon rest = Some tr" and tr: "(token, rest') = tr"
  from found tr have semi: "CHR '';'' \<in> set rest"
    and rest': "rest' = tl (dropWhile (\<lambda>c. c \<noteq> CHR '';'') rest)"
    by (auto simp: find_semicolon_def split: if_splits)
  from semi have "dropWhile (\<lambda>c. c \<noteq> CHR '';'') rest \<noteq> []"
    by auto
  then have "length rest' < length (dropWhile (\<lambda>c. c \<noteq> CHR '';'') rest)"
    by (simp add: rest')
  also have "\<dots> \<le> length rest"
    by (rule length_dropWhile_le)
  finally show "((axisIndex, rest', v'), (axisIndex, rest, v))
      \<in> measure (\<lambda>(axisIndex, rest, v). length rest)"
    by simp
qed

declare parse_tokens.simps [simp del]

text \<open>
  The record handed to \<^verbatim>\<open>RegSetValueExW\<close>: the parsed values, and \<^verbatim>\<open>mid\<close> computed from
  them in \<^verbatim>\<open>DWORD\<close> arithmetic.
\<close>

definition calibration_record :: "string \<Rightarrow> int \<Rightarrow> failure + AxisCalibration" where
  "calibration_record calibrationData axisIndex =
     (case parse_tokens axisIndex calibrationData parsed_init of
        Inl e \<Rightarrow> Inl e
      | Inr v \<Rightarrow>
          Inr \<lparr>min_c = p_min v, mid_c = (p_min v + p_max v) div 2, max_c = p_max v,
               minDeadzone = p_minDeadzone v, maxDeadzone = p_maxDeadzone v\<rparr>)"

text \<open>
  The bytes of the packed record as \<^verbatim>\<open>reinterpret_cast<const BYTE*>\<close> sees them on the
  little-endian machines Windows runs on.
\<close>

definition dword_bytes :: "DWORD \<Rightarrow> byte list" where
  "dword_bytes w = [ucast w, ucast (drop_bit 8 w), ucast (drop_bit 16 w), ucast (drop_bit 24 w)]"

definition record_bytes :: "AxisCalibration \<Rightarrow> byte list" where
  "record_bytes r =
     dword_bytes (min_c r) @ dword_bytes (mid_c r) @ dword_bytes (max_c r) @
     dword_bytes (minDeadzone r) @ dword_bytes (maxDeadzone r)"

text \<open>
  \<^verbatim>\<open>saveCalibrationToRegistry\<close>. The string is parsed first, so an exception leaves
  the registry untouched. The key is only opened, never created; the value
  \<^verbatim>\<open>Calibration\<close> of an opened key is set to the bytes of the record (\<^verbatim>\<open>RegSetValueExW\<close>
  on an opened key is taken to succeed). The broadcast of \<^verbatim>\<open>refreshDeviceState\<close> changes
  nothing here.
\<close>

definition saveCalibrationToRegistry :: "string \<Rightarrow> int \<Rightarrow> registry \<Rightarrow> failure + registry" where
  "saveCalibrationToRegistry calibrationData axisIndex reg =
     (case calibration_record calibrationData axisIndex of
        Inl e \<Rightarrow> Inl e
      | Inr axisData \<Rightarrow>
          (case reg (axisPath axisIndex) of
             None \<Rightarrow> Inr reg
           | Some vals \<Rightarrow>
               Inr (reg(axisPath axisIndex \<mapsto> vals(''Calibration'' \<mapsto> record_bytes axisData)))))"

text \<open>
  \<^verbatim>\<open>readCalibrationData\<close>: for the axis indices 0, 1 and 2, the key
  \<^verbatim>\<open>basePath + std::to_wstring(axisIndex)\<close> is opened and its value \<^verbatim>\<open>Calibration\<close>
  queried. The result here is what the query finds for each index (the printing is left
  out).
\<close>

definition basePath :: string where
  "basePath =
     ''System'' @ backslash # ''CurrentControlSet'' @ backslash # ''Control'' @ backslash #
     ''MediaProperties'' @ backslash # ''PrivateProperties'' @ backslash # ''DirectInput'' @
     backslash # ''VID_1DD2&PID_2735'' @ backslash # ''Calibration'' @ backslash # ''0'' @
     backslash # ''Type'' @ backslash # ''Axes'' @ [backslash]"

definition read_axisPath :: "int \<Rightarrow> string" where
  "read_axisPath axisIndex = basePath @ to_wstring axisIndex"

text \<open>
  The fields that \<^verbatim>\<open>AxisCalibration axisData\<close> of the reader holds once the query has
  filled it with 20 bytes: each field is made of its four bytes, the lowest first.
\<close>

definition bytes_dword :: "byte list \<Rightarrow> DWORD" where
  "bytes_dword bs =
     ucast (bs ! 0) OR push_bit 8 (ucast (bs ! 1)) OR push_bit 16 (ucast (bs ! 2)) OR
     push_bit 24 (ucast (bs ! 3))"

definition bytes_record :: "byte list \<Rightarrow> AxisCalibration" where
  "bytes_record bs =
     \<lparr>min_c = bytes_dword (take 4 bs),
      mid_c = bytes_dword (take 4 (drop 4 bs)),
      max_c = bytes_dword (take 4 (drop 8 bs)),
      minDeadzone = bytes_dword (take 4 (drop 12 bs)),
      maxDeadzone = bytes_dword (take 4 (drop 16 bs))\<rparr>"

definition readCalibrationData :: "registry \<Rightarrow> (int \<times> byte list option) list" where
  "readCalibrationData reg =
     map (\<lambda>axisIndex.
            (axisIndex,
             case reg (read_axisPath axisIndex) of
               None \<Rightarrow> None
             | Some vals \<Rightarrow> vals ''Calibration''))
         [0, 1, 2]"

text \<open>
  For the comparison with the parser, in the words of its description: the
  semicolon-terminated tokens of a string in their order (text after the last semicolon
  is no token), and the prefixes that are recognised for an axis, which are \<open>Min\<close>,
  \<open>Max\<close>, \<open>MinDeadzone\<close> and \<open>MaxDeadzone\<close>, each followed by the name of the axis and an
  equals sign.
\<close>

fun tokens_from :: "string \<Rightarrow> string \<Rightarrow> string list" where
  "tokens_from cur [] = []"
| "tokens_from cur (c # cs) =
     (if c = CHR '';'' then cur # tokens_from [] cs else tokens_from (cur @ [c]) cs)"

definition semicolon_tokens :: "string \<Rightarrow> string list" where
  "semicolon_tokens calibrationData = tokens_from [] calibrationData"

definition axis_name :: "int \<Rightarrow> string option" where
  "axis_name axisIndex =
     (if axisIndex = 0 then Some ''X''
      else if axisIndex = 1 then Some ''Z''
      else if axisIndex = 2 then Some ''RY''
      else None)"

definition recognized_prefixes :: "int \<Rightarrow> string list" where
  "recognized_prefixes axisIndex =
     (case axis_name axisIndex of
        None \<Rightarrow> []
      | Some n \<Rightarrow> [''Min'' @ n @ ''='', ''Max'' @ n @ ''='',
                  ''MinDeadzone'' @ n @ ''='', ''MaxDeadzone'' @ n @ ''=''])"

definition recognized :: "int \<Rightarrow> string \<Rightarrow> bool" where
  "recognized axisIndex token = list_ex (starts_with token) (recognized_prefixes axisIndex)"

subsection \<open>The main window\<close>

text \<open>
  The members of \<^verbatim>\<open>MainWindow\<close> that the calibration logic reads and writes, with the
  registry it saves to. \<open>calBars\<close> holds the three percentages last put on the progress
  bars and labels (nothing before the first update). The chart histories hold \<^verbatim>\<open>double\<close>
  values and are left out; message boxes that only inform are left out too.
\<close>

record MainWindow =
  m_calibrated :: bool
  currentXRaw :: LONG
  currentZRaw :: LONG
  currentRYRaw :: LONG
  xRange :: AxisRange
  zRange :: AxisRange
  ryRange :: AxisRange
  calibrationHistory :: "CalibrationBackup list"
  calBars :: "(LONG \<times> LONG \<times> LONG) option"
  HKCU :: registry

text \<open>
  The state after the constructor: the member initialisers of the class and the three
  default ranges.
\<close>

definition MainWindow_init :: "registry \<Rightarrow> MainWindow" where
  "MainWindow_init reg =
     \<lparr>m_calibrated = False,
      currentXRaw = 0, currentZRaw = 0, currentRYRaw = 0,
      xRange = \<lparr>min_r = 0, max_r = 4095\<rparr>,
      zRange = \<lparr>min_r = 0, max_r = 4095\<rparr>,
      ryRange = \<lparr>min_r = 0, max_r = 4095\<rparr>,
      calibrationHistory = [],
      calBars = None,
      HKCU = reg\<rparr>"

text \<open>Sequencing of steps that an exception may cut short.\<close>

definition and_then :: "failure + 'a \<Rightarrow> ('a \<Rightarrow> failure + 'b) \<Rightarrow> failure + 'b" where
  "and_then r f = (case r of Inl e \<Rightarrow> Inl e | Inr a \<Rightarrow> f a)"

text \<open>A call of \<^verbatim>\<open>saveCalibrationToRegistry\<close> from the window.\<close>

definition save :: "string \<Rightarrow> int \<Rightarrow> MainWindow \<Rightarrow> failure + MainWindow" where
  "save calibrationData axisIndex w =
     (case saveCalibrationToRegistry calibrationData axisIndex (HKCU w) of
        Inl e \<Rightarrow> Inl e
      | Inr reg \<Rightarrow> Inr (w\<lparr>HKCU := reg\<rparr>))"

text \<open>
  \<^verbatim>\<open>MainWindow::updateValues\<close>. Its argument is what the device gave on this tick, already
  scaled to the raw domain by \<^verbatim>\<open>static_cast<LONG>(js.lX * (4095.0 / 65535.0))\<close>, or \<open>None\<close>
  when there is no device or polling failed twice. \<open>normalizer_inputs\<close> lists the
  arguments of the three calls of \<^verbatim>\<open>updateAxis\<close>.
\<close>

definition normalizer_inputs :: "MainWindow \<Rightarrow> (LONG \<times> AxisRange) list" where
  "normalizer_inputs w =
     [(currentXRaw w, xRange w), (currentZRaw w, zRange w), (currentRYRaw w, ryRange w)]"

text \<open>
  Before that, \<^verbatim>\<open>updateValues\<close> scales each raw value for the chart, as
  \<^verbatim>\<open>double(raw - min) / (max - min) * 100.0\<close>. This is floating-point arithmetic and is
  not modelled; \<open>scaled_divisors\<close> lists the three divisors, which are computed on
  \<^verbatim>\<open>LONG\<close>.
\<close>

definition scaled_divisors :: "MainWindow \<Rightarrow> LONG list" where
  "scaled_divisors w =
     [long_sub (max_r (xRange w)) (min_r (xRange w)),
      long_sub (max_r (zRange w)) (min_r (zRange w)),
      long_sub (max_r (ryRange w)) (min_r (ryRange w))]"

definition updateValues :: "(LONG \<times> LONG \<times> LONG) option \<Rightarrow> MainWindow \<Rightarrow> failure + MainWindow" where
  "updateValues sample w =
     (case sample of
        None \<Rightarrow> Inr w
      | Some (lX, lZ, lRy) \<Rightarrow>
          (let w1 = w\<lparr>currentXRaw := lX, currentZRaw := lZ, currentRYRaw := lRy\<rparr>
           in and_then (updateAxis (currentXRaw w1) (xRange w1)) (\<lambda>px.
              and_then (updateAxis (currentZRaw w1) (zRange w1)) (\<lambda>pz.
              and_then (updateAxis (currentRYRaw w1) (ryRange w1)) (\<lambda>pry.
              Inr (w1\<lparr>calBars := Some (px, pz, pry)\<rparr>))))))"

text \<open>\<^verbatim>\<open>MainWindow::resetCalibration\<close>\<close>

definition resetCalibration :: "MainWindow \<Rightarrow> failure + MainWindow" where
  "resetCalibration w =
     (let w1 = w\<lparr>m_calibrated := False,
                 xRange := \<lparr>min_r = 0, max_r = 4095\<rparr>,
                 zRange := \<lparr>min_r = 0, max_r = 4095\<rparr>,
                 ryRange := \<lparr>min_r = 0, max_r = 4095\<rparr>\<rparr>
      in and_then (save ''MinX=0;MaxX=4095;'' 0 w1) (\<lambda>w2.
         and_then (save ''MinZ=0;MaxZ=4095;'' 1 w2) (\<lambda>w3.
         save ''MinRY=0;MaxRY=4095;'' 2 w3)))"

text \<open>\<^verbatim>\<open>MainWindow::backupCurrentCalibration\<close>\<close>

definition backupCurrentCalibration :: "MainWindow \<Rightarrow> MainWindow" where
  "backupCurrentCalibration w =
     (let backup = \<lparr>x_range = xRange w, z_range = zRange w, ry_range = ryRange w\<rparr>;
          pushed = calibrationHistory w @ [backup]
      in w\<lparr>calibrationHistory := (if length pushed > 10 then tl pushed else pushed)\<rparr>)"

text \<open>\<^verbatim>\<open>MainWindow::restoreDefaults\<close>\<close>

definition restoreDefaults :: "MainWindow \<Rightarrow> failure + MainWindow" where
  "restoreDefaults w =
     (let w0 = backupCurrentCalibration w;
          w1 = w0\<lparr>m_calibrated := False,
                  xRange := \<lparr>min_r = 0, max_r = 4095\<rparr>,
                  zRange := \<lparr>min_r = 0, max_r = 4095\<rparr>,
                  ryRange := \<lparr>min_r = 0, max_r = 4095\<rparr>\<rparr>
      in and_then (save ''MinX=0;MaxX=4095;'' 0 w1) (\<lambda>w2.
         and_then (save ''MinZ=0;MaxZ=4095;'' 1 w2) (\<lambda>w3.
         save ''MinRY=0;MaxRY=4095;'' 2 w3)))"

text \<open>\<^verbatim>\<open>MainWindow::restoreLastCalibration\<close>\<close>

definition restoreLastCalibration :: "MainWindow \<Rightarrow> failure + MainWindow" where
  "restoreLastCalibration w =
     (if calibrationHistory w = [] then Inr w
      else
        (let backup = last (calibrationHistory w);
             w1 = w\<lparr>xRange := x_range backup, zRange := z_range backup,
                    ryRange := ry_range backup,
                    calibrationHistory := butlast (calibrationHistory w)\<rparr>
         in and_then (save (''MinX='' @ to_wstring (min_r (xRange w1)) @
                            '';MaxX='' @ to_wstring (max_r (xRange w1)) @ '';'') 0 w1) (\<lambda>w2.
            and_then (save (''MinZ='' @ to_wstring (min_r (zRange w1)) @
                            '';MaxZ='' @ to_wstring (max_r (zRange w1)) @ '';'') 1 w2) (\<lambda>w3.
            save (''MinRY='' @ to_wstring (min_r (ryRange w1)) @
                  '';MaxRY='' @ to_wstring (max_r (ryRange w1)) @ '';'') 2 w3))))"

text \<open>\<^verbatim>\<open>MainWindow::setAxisMin\<close>; an axis other than 0, 1, 2 matches no \<^verbatim>\<open>case\<close>.\<close>

definition setAxisMin :: "int \<Rightarrow> MainWindow \<Rightarrow> failure + MainWindow" where
  "setAxisMin axis w =
     (if axis = 0 then
        (let w1 = w\<lparr>xRange := (xRange w)\<lparr>min_r := currentXRaw w\<rparr>\<rparr>
         in save (''MinX='' @ to_wstring (min_r (xRange w1)) @
                  '';MaxX='' @ to_wstring (max_r (xRange w1)) @ '';'') 0 w1)
      else if axis = 1 then
        (let w1 = w\<lparr>zRange := (zRange w)\<lparr>min_r := currentZRaw w\<rparr>\<rparr>
         in save (''MinZ='' @ to_wstring (min_r (zRange w1)) @
                  '';MaxZ='' @ to_wstring (max_r (zRange w1)) @ '';'') 1 w1)
      else if axis = 2 then
        (let w1 = w\<lparr>ryRange := (ryRange w)\<lparr>min_r := currentRYRaw w\<rparr>\<rparr>
         in save (''MinRY='' @ to_wstring (min_r (ryRange w1)) @
                  '';MaxRY='' @ to_wstring (max_r (ryRange w1)) @ '';'') 2 w1)
      else Inr w)"

text \<open>\<^verbatim>\<open>MainWindow::setAxisMax\<close>; the flag is set after the save.\<close>

definition setAxisMax :: "int \<Rightarrow> MainWindow \<Rightarrow> failure + MainWindow" where
  "setAxisMax axis w =
     (if axis = 0 then
        (let w1 = w\<lparr>xRange := (xRange w)\<lparr>max_r := currentXRaw w\<rparr>\<rparr>
         in and_then (save (''MinX='' @ to_wstring (min_r (xRange w1)) @
                            '';MaxX='' @ to_wstring (max_r (xRange w1)) @ '';'') 0 w1)
              (\<lambda>w2. Inr (w2\<lparr>m_calibrated := True\<rparr>)))
      else if axis = 1 then
        (let w1 = w\<lparr>zRange := (zRange w)\<lparr>max_r := currentZRaw w\<rparr>\<rparr>
         in and_then (save (''MinZ='' @ to_wstring (min_r (zRange w1)) @
                            '';MaxZ='' @ to_wstring (max_r (zRange w1)) @ '';'') 1 w1)
              (\<lambda>w2. Inr (w2\<lparr>m_calibrated := True\<rparr>)))
      else if axis = 2 then
        (let w1 = w\<lparr>ryRange := (ryRange w)\<lparr>max_r := currentRYRaw w\<rparr>\<rparr>
         in and_then (save (''MinRY='' @ to_wstring (min_r (ryRange w1)) @
                            '';MaxRY='' @ to_wstring (max_r (ryRange w1)) @ '';'') 2 w1)
              (\<lambda>w2. Inr (w2\<lparr>m_calibrated := True\<rparr>)))
      else Inr w)"

text \<open>
  What can happen to the window: the five user operations, and the timer tick with what
  the device gave. A run is a sequence of these from some state.
\<close>

datatype operation =
    SetMin int
  | SetMax int
  | Reset
  | RestoreDefaults
  | RestoreLast
  | Tick "(LONG \<times> LONG \<times> LONG) option"

fun step :: "operation \<Rightarrow> MainWindow \<Rightarrow> failure + MainWindow" where
  "step (SetMin axis) w = setAxisMin axis w"
| "step (SetMax axis) w = setAxisMax axis w"
| "step Reset w = resetCalibration w"
| "step RestoreDefaults w = restoreDefaults w"
| "step RestoreLast w = restoreLastCalibration w"
| "step (Tick sample) w = updateValues sample w"

fun run :: "operation list \<Rightarrow> MainWindow \<Rightarrow> failure + MainWindow" where
  "run [] w = Inr w"
| "run (op # ops) w = and_then (step op w) (run ops)"

text \<open>
  The history after a series of backups, each taken when the three ranges are those of
  one snapshot of the list.
\<close>

definition with_ranges :: "CalibrationBackup \<Rightarrow> MainWindow \<Rightarrow> MainWindow" where
  "with_ranges b w = w\<lparr>xRange := x_range b, zRange := z_range b, ryRange := ry_range b\<rparr>"

definition backup_all :: "CalibrationBackup list \<Rightarrow> MainWindow \<Rightarrow> MainWindow" where
  "backup_all bs w = fold (\<lambda>b w'. backupCurrentCalibration (with_ranges b w')) bs w"

text \<open>
  The values of a window and of a tick fit the type \<^verbatim>\<open>LONG\<close> they have in the program.
\<close>

definition LONG_range :: "AxisRange \<Rightarrow> bool" where
  "LONG_range rng = (is_LONG (min_r rng) \<and> is_LONG (max_r rng))"

definition LONG_backup :: "CalibrationBackup \<Rightarrow> bool" where
  "LONG_backup b = (LONG_range (x_range b) \<and> LONG_range (z_range b) \<and> LONG_range (ry_range b))"

definition LONG_window :: "MainWindow \<Rightarrow> bool" where
  "LONG_window w =
     (is_LONG (currentXRaw w) \<and> is_LONG (currentZRaw w) \<and> is_LONG (currentRYRaw w) \<and>
      LONG_range (xRange w) \<and> LONG_range (zRange w) \<and> LONG_range (ryRange w) \<and>
      list_all LONG_backup (calibrationHistory w))"

fun LONG_operation :: "operation \<Rightarrow> bool" where
  "LONG_operation (Tick (Some (lX, lZ, lRy))) = (is_LONG lX \<and> is_LONG lZ \<and> is_LONG lRy)"
| "LONG_operation _ = True"

section \<open>Properties\<close>

subsection \<open>The normaliser\<close>

lemma wrap_LONG_id: "is_LONG n \<Longrightarrow> wrap_LONG n = n"
  by (simp add: wrap_LONG_def is_LONG_def)

lemma wrap_LONG_high:
  assumes "2147483647 < n" "n < 4294967296"
  shows "wrap_LONG n = n - 4294967296"
proof -
  have "(n + 2147483648) mod 4294967296 = (n + 2147483648 - 4294967296) mod 4294967296"
    by (simp only: minus_mod_self2)
  also from assms have "\<dots> = n + 2147483648 - 4294967296"
    by (intro mod_pos_pos_trivial) simp_all
  finally show ?thesis
    by (simp add: wrap_LONG_def)
qed

lemma wrap_LONG_low:
  assumes "- 4294967296 < n" "n < - 2147483648"
  shows "wrap_LONG n = n + 4294967296"
proof -
  have "(n + 2147483648) mod 4294967296 = (n + 2147483648 + 4294967296) mod 4294967296"
    by (simp only: mod_add_self2)
  also from assms have "\<dots> = n + 2147483648 + 4294967296"
    by (intro mod_pos_pos_trivial) simp_all
  finally show ?thesis
    by (simp add: wrap_LONG_def)
qed

lemma long_div_pos:
  "0 \<le> a \<Longrightarrow> 0 < b \<Longrightarrow> long_div a b = Inr (a div b)"
  by (cases "a = 0") (simp_all add: long_div_def)

lemma calPercent_eq_updateAxis: "calPercent raw rng = updateAxis raw rng"
  by (simp add: calPercent_def updateAxis_def)

text \<open>The two saturating branches do no arithmetic.\<close>

lemma updateAxis_low: "raw \<le> min_r rng \<Longrightarrow> updateAxis raw rng = Inr 0"
  by (simp add: updateAxis_def)

lemma updateAxis_high:
  "min_r rng < raw \<Longrightarrow> max_r rng \<le> raw \<Longrightarrow> updateAxis raw rng = Inr 100"
  by (simp add: updateAxis_def)

text \<open>
  The division is only reached with \<open>min < raw < max\<close>. Where the product and the span
  fit \<^verbatim>\<open>LONG\<close>, both operands are positive and truncation is the floor.
\<close>

lemma updateAxis_between:
  assumes "min_r rng < raw" "raw < max_r rng"
    and "is_LONG ((raw - min_r rng) * 100)" "is_LONG (max_r rng - min_r rng)"
  shows "updateAxis raw rng = Inr (((raw - min_r rng) * 100) div (max_r rng - min_r rng))"
proof -
  from assms(1,3) have "is_LONG (raw - min_r rng)"
    by (simp add: is_LONG_def)
  then have "long_sub raw (min_r rng) = raw - min_r rng"
    by (simp add: long_sub_def wrap_LONG_id)
  moreover from assms(3) have "long_mul (raw - min_r rng) 100 = (raw - min_r rng) * 100"
    by (simp add: long_mul_def wrap_LONG_id)
  moreover from assms(4) have "long_sub (max_r rng) (min_r rng) = max_r rng - min_r rng"
    by (simp add: long_sub_def wrap_LONG_id)
  moreover from assms(1,2) have "long_div ((raw - min_r rng) * 100) (max_r rng - min_r rng) =
      Inr (((raw - min_r rng) * 100) div (max_r rng - min_r rng))"
    by (intro long_div_pos) simp_all
  ultimately show ?thesis
    using assms(1,2) by (simp add: updateAxis_def)
qed

lemma percent_bounds:
  fixes raw lo hi :: int
  assumes "lo < raw" "raw < hi"
  shows "0 \<le> ((raw - lo) * 100) div (hi - lo) \<and> ((raw - lo) * 100) div (hi - lo) < 100"
proof -
  define a where "a = (raw - lo) * 100"
  define c where "c = hi - lo"
  from assms have c: "0 < c" and a: "0 \<le> a" and ac: "a < c * 100"
    by (simp_all add: a_def c_def)
  have "c * (a div c) + a mod c = a"
    by simp
  moreover from c have "0 \<le> a mod c"
    by simp
  ultimately have le: "c * (a div c) \<le> a"
    by linarith
  have "a div c < 100"
  proof (rule ccontr)
    assume "\<not> a div c < 100"
    then have "100 \<le> a div c" by simp
    with c have "c * 100 \<le> c * (a div c)"
      by (simp add: mult_left_mono)
    with le ac show False by linarith
  qed
  moreover from a c have "0 \<le> a div c"
    by (simp add: pos_imp_zdiv_nonneg_iff)
  ultimately show ?thesis
    by (simp add: a_def c_def)
qed

text \<open>
  On values of the raw domain 0..4095, no intermediate result of the normaliser leaves
  the range of \<^verbatim>\<open>LONG\<close>.
\<close>

lemma raw_domain_fits_LONG:
  assumes "0 \<le> raw" "raw \<le> 4095" "0 \<le> min_r rng" "min_r rng \<le> 4095"
    "0 \<le> max_r rng" "max_r rng \<le> 4095"
  shows "is_LONG (raw - min_r rng) \<and> is_LONG ((raw - min_r rng) * 100) \<and>
         is_LONG (max_r rng - min_r rng)"
  using assms by (simp add: is_LONG_def)

text \<open>
  The divisor is never zero: in the branch that divides, \<open>min < max\<close>, and the difference
  of two different \<^verbatim>\<open>LONG\<close> values does not wrap to zero.
\<close>

lemma long_sub_nonzero:
  assumes "is_LONG a" "is_LONG b" "a \<noteq> b"
  shows "long_sub a b \<noteq> 0"
proof -
  from assms(1,2) have bounds: "- 4294967296 < a - b" "a - b < 4294967296"
    by (simp_all add: is_LONG_def)
  consider "a - b < - 2147483648" | "is_LONG (a - b)" | "2147483647 < a - b"
    unfolding is_LONG_def by linarith
  then show ?thesis
  proof cases
    case 1
    with bounds show ?thesis
      by (simp add: long_sub_def wrap_LONG_low)
  next
    case 2
    with assms(3) show ?thesis
      by (simp add: long_sub_def wrap_LONG_id)
  next
    case 3
    with bounds show ?thesis
      by (simp add: long_sub_def wrap_LONG_high)
  qed
qed

lemma updateAxis_divisor:
  assumes "LONG_range rng"
  shows "updateAxis raw rng \<noteq> Inl divide_by_zero"
proof (cases "min_r rng < raw \<and> raw < max_r rng")
  case True
  with assms have "long_sub (max_r rng) (min_r rng) \<noteq> 0"
    by (intro long_sub_nonzero) (simp_all add: LONG_range_def)
  with True show ?thesis
    by (simp add: updateAxis_def long_div_def)
next
  case False
  then show ?thesis
    by (auto simp: updateAxis_def)
qed

text \<open>
  The other trap of the division is within reach of the arithmetic, though only on the
  widest range of all.
\<close>

lemma updateAxis_overflow_trap:
  "updateAxis 536870912 \<lparr>min_r = - 2147483648, max_r = 2147483647\<rparr> = Inl integer_overflow"
  by (simp add: updateAxis_def long_div_def long_mul_def long_sub_def wrap_LONG_def)

subsection \<open>Validation of a proposed range\<close>

text \<open>
  Claim C1 says that a range with \<open>min < max\<close> and a span below 409 is accepted with a
  warning. It is not: for the range \<open>{100, 200}\<close> of the scenario the validation shows
  the Small Range warning and returns \<open>false\<close>.
\<close>

theorem validateAxisRange_narrow_counterexample:
  "validateAxisRange \<lparr>min_r = 100, max_r = 200\<rparr> = (False, Some Small_Range)"
  by (simp add: validateAxisRange_def long_sub_def wrap_LONG_def)

text \<open>
  Claim C1, as amended: a range with \<open>min < max\<close> and a span below 409 gets the Small Range
  warning and is rejected; a range with \<open>min \<ge> max\<close> gets the Invalid Range warning and is
  rejected; and on bounds that are \<^verbatim>\<open>LONG\<close> values, the validation succeeds exactly when
  the span is at least 409 and fits \<^verbatim>\<open>LONG\<close> (a span above \<open>2^31 - 1\<close> wraps to a negative
  number and gets the Small Range warning).
\<close>

theorem validateAxisRange_narrow_rejected:
  "(min_r rng < max_r rng \<and> max_r rng - min_r rng < 409 \<longrightarrow>
      validateAxisRange rng = (False, Some Small_Range)) \<and>
   (max_r rng \<le> min_r rng \<longrightarrow> validateAxisRange rng = (False, Some Invalid_Range)) \<and>
   (LONG_range rng \<longrightarrow>
      (fst (validateAxisRange rng) \<longleftrightarrow>
         409 \<le> max_r rng - min_r rng \<and> max_r rng - min_r rng \<le> 2147483647))"
proof (intro conjI impI)
  show "validateAxisRange rng = (False, Some Small_Range)"
    if "min_r rng < max_r rng \<and> max_r rng - min_r rng < 409"
    using that by (simp add: validateAxisRange_def long_sub_def wrap_LONG_def)
  show "validateAxisRange rng = (False, Some Invalid_Range)" if "max_r rng \<le> min_r rng"
    using that by (simp add: validateAxisRange_def)
  show "fst (validateAxisRange rng) \<longleftrightarrow>
      409 \<le> max_r rng - min_r rng \<and> max_r rng - min_r rng \<le> 2147483647"
    if "LONG_range rng"
  proof -
    from that have bounds: "max_r rng - min_r rng < 4294967296"
      by (simp add: LONG_range_def is_LONG_def)
    consider "max_r rng \<le> min_r rng"
      | "min_r rng < max_r rng" "max_r rng - min_r rng \<le> 2147483647"
      | "2147483647 < max_r rng - min_r rng"
      by linarith
    then show ?thesis
    proof cases
      case 1
      then show ?thesis
        by (simp add: validateAxisRange_def)
    next
      case 2
      then have "is_LONG (max_r rng - min_r rng)"
        by (simp add: is_LONG_def)
      then have "long_sub (max_r rng) (min_r rng) = max_r rng - min_r rng"
        by (simp add: long_sub_def wrap_LONG_id)
      with 2 show ?thesis
        by (simp add: validateAxisRange_def)
    next
      case 3
      with bounds have "long_sub (max_r rng) (min_r rng) = max_r rng - min_r rng - 4294967296"
        by (simp add: long_sub_def wrap_LONG_high)
      with 3 bounds show ?thesis
        by (simp add: validateAxisRange_def)
    qed
  qed
qed

text \<open>
  The amended claim C1 at the ranges \<open>{100, 200}\<close>, \<open>{200, 200}\<close> and \<open>{0, 4095}\<close>, and at
  the widest range of all, whose span does not fit.
\<close>

theorem validateAxisRange_narrow_rejected_witness:
  "validateAxisRange \<lparr>min_r = 100, max_r = 200\<rparr> = (False, Some Small_Range) \<and>
   validateAxisRange \<lparr>min_r = 200, max_r = 200\<rparr> = (False, Some Invalid_Range) \<and>
   fst (validateAxisRange \<lparr>min_r = 0, max_r = 4095\<rparr>) \<and>
   \<not> fst (validateAxisRange \<lparr>min_r = - 2147483648, max_r = 2147483647\<rparr>)"
  using validateAxisRange_narrow_rejected [of "\<lparr>min_r = 100, max_r = 200\<rparr>"]
    validateAxisRange_narrow_rejected [of "\<lparr>min_r = 200, max_r = 200\<rparr>"]
    validateAxisRange_narrow_rejected [of "\<lparr>min_r = 0, max_r = 4095\<rparr>"]
    validateAxisRange_narrow_rejected [of "\<lparr>min_r = - 2147483648, max_r = 2147483647\<rparr>"]
  by (simp add: LONG_range_def is_LONG_def)

subsection \<open>The normaliser on the default range\<close>

text \<open>
  Claim C3 gives 49 percent for the raw value 2048 on the default range. The code gives
  something else: 204800 / 4095 truncates to 50.
\<close>

theorem default_range_2048_counterexample:
  "updateAxis 2048 \<lparr>min_r = 0, max_r = 4095\<rparr> \<noteq> Inr 49"
  by (simp add: updateAxis_def long_div_def long_mul_def long_sub_def wrap_LONG_def)

text \<open>
  Claim C3, as amended: on the default range \<open>{0, 4095}\<close> the integer normalisation of
  both front-ends yields 0 for raw 0, 100 for raw 4095 and 50 for raw 2048.
\<close>

theorem default_range_scenario:
  "updateAxis 0 \<lparr>min_r = 0, max_r = 4095\<rparr> = Inr 0 \<and>
   updateAxis 4095 \<lparr>min_r = 0, max_r = 4095\<rparr> = Inr 100 \<and>
   updateAxis 2048 \<lparr>min_r = 0, max_r = 4095\<rparr> = Inr 50 \<and>
   calPercent 0 \<lparr>min_r = 0, max_r = 4095\<rparr> = Inr 0 \<and>
   calPercent 4095 \<lparr>min_r = 0, max_r = 4095\<rparr> = Inr 100 \<and>
   calPercent 2048 \<lparr>min_r = 0, max_r = 4095\<rparr> = Inr 50"
  by (simp add: calPercent_eq_updateAxis updateAxis_def long_div_def long_mul_def long_sub_def
      wrap_LONG_def)

subsection \<open>Saturation and interpolation\<close>

text \<open>
  Claim C5 says that the interpolation is the floor of \<open>(raw - min) * 100 / (max - min)\<close>,
  within 0 and 100, for every range with \<open>min < max\<close> and every raw value. It is not where
  the product leaves the 32 bits of \<^verbatim>\<open>LONG\<close>: for the raw value 30000000 in the range
  \<open>{0, 40000000}\<close> the product 3000000000 wraps to -1294967296 and the result is -32,
  not 75.
\<close>

theorem updateAxis_interpolation_counterexample:
  "updateAxis 30000000 \<lparr>min_r = 0, max_r = 40000000\<rparr> = Inr (- 32) \<and>
   calPercent 30000000 \<lparr>min_r = 0, max_r = 40000000\<rparr> = Inr (- 32)"
  by (simp add: calPercent_eq_updateAxis updateAxis_def long_div_def long_mul_def long_sub_def
      wrap_LONG_def)

text \<open>
  Claim C5, as amended: for every range with \<open>min < max\<close> and every raw value, the integer
  normalisation (of either front-end) returns 0 when \<open>raw \<le> min\<close> and 100 when
  \<open>raw \<ge> max\<close>; otherwise, provided that \<open>(raw - min) * 100\<close> and \<open>max - min\<close> fit the 32-bit
  \<^verbatim>\<open>LONG\<close>, it returns the floor of \<open>(raw - min) * 100 / (max - min)\<close>, which lies between
  0 and 100. The proviso holds for all values of the raw domain 0..4095.
\<close>

theorem updateAxis_saturating_interpolation:
  assumes "min_r rng < max_r rng"
  shows "calPercent raw rng = updateAxis raw rng \<and>
         (raw \<le> min_r rng \<longrightarrow> updateAxis raw rng = Inr 0) \<and>
         (raw \<ge> max_r rng \<longrightarrow> updateAxis raw rng = Inr 100) \<and>
         (min_r rng < raw \<and> raw < max_r rng \<and>
          is_LONG ((raw - min_r rng) * 100) \<and> is_LONG (max_r rng - min_r rng) \<longrightarrow>
            updateAxis raw rng = Inr (((raw - min_r rng) * 100) div (max_r rng - min_r rng)) \<and>
            0 \<le> ((raw - min_r rng) * 100) div (max_r rng - min_r rng) \<and>
            ((raw - min_r rng) * 100) div (max_r rng - min_r rng) \<le> 100) \<and>
         (0 \<le> raw \<and> raw \<le> 4095 \<and> 0 \<le> min_r rng \<and> max_r rng \<le> 4095 \<longrightarrow>
            (\<exists>p. updateAxis raw rng = Inr p \<and> 0 \<le> p \<and> p \<le> 100 \<and>
                 p = (if raw \<le> min_r rng then 0
                      else if raw \<ge> max_r rng then 100
                      else ((raw - min_r rng) * 100) div (max_r rng - min_r rng))))"
proof (intro conjI impI)
  show "calPercent raw rng = updateAxis raw rng"
    by (rule calPercent_eq_updateAxis)
  show "updateAxis raw rng = Inr 0" if "raw \<le> min_r rng"
    using that by (rule updateAxis_low)
  show "updateAxis raw rng = Inr 100" if "raw \<ge> max_r rng"
    using that assms by (intro updateAxis_high) simp_all
  have between: "updateAxis raw rng = Inr (((raw - min_r rng) * 100) div (max_r rng - min_r rng)) \<and>
      0 \<le> ((raw - min_r rng) * 100) div (max_r rng - min_r rng) \<and>
      ((raw - min_r rng) * 100) div (max_r rng - min_r rng) \<le> 100"
    if "min_r rng < raw \<and> raw < max_r rng \<and>
        is_LONG ((raw - min_r rng) * 100) \<and> is_LONG (max_r rng - min_r rng)"
  proof -
    from that have "updateAxis raw rng =
        Inr (((raw - min_r rng) * 100) div (max_r rng - min_r rng))"
      by (intro updateAxis_between) simp_all
    moreover from that have "0 \<le> ((raw - min_r rng) * 100) div (max_r rng - min_r rng) \<and>
        ((raw - min_r rng) * 100) div (max_r rng - min_r rng) < 100"
      by (intro percent_bounds) simp_all
    ultimately show ?thesis by simp
  qed
  from between show "updateAxis raw rng =
      Inr (((raw - min_r rng) * 100) div (max_r rng - min_r rng))"
    if "min_r rng < raw \<and> raw < max_r rng \<and>
        is_LONG ((raw - min_r rng) * 100) \<and> is_LONG (max_r rng - min_r rng)"
    using that by blast
  from between show "0 \<le> ((raw - min_r rng) * 100) div (max_r rng - min_r rng)"
    if "min_r rng < raw \<and> raw < max_r rng \<and>
        is_LONG ((raw - min_r rng) * 100) \<and> is_LONG (max_r rng - min_r rng)"
    using that by blast
  from between show "((raw - min_r rng) * 100) div (max_r rng - min_r rng) \<le> 100"
    if "min_r rng < raw \<and> raw < max_r rng \<and>
        is_LONG ((raw - min_r rng) * 100) \<and> is_LONG (max_r rng - min_r rng)"
    using that by blast
  show "\<exists>p. updateAxis raw rng = Inr p \<and> 0 \<le> p \<and> p \<le> 100 \<and>
       p = (if raw \<le> min_r rng then 0
            else if raw \<ge> max_r rng then 100
            else ((raw - min_r rng) * 100) div (max_r rng - min_r rng))"
    if d: "0 \<le> raw \<and> raw \<le> 4095 \<and> 0 \<le> min_r rng \<and> max_r rng \<le> 4095"
  proof (cases "min_r rng < raw \<and> raw < max_r rng")
    case True
    with d assms have "is_LONG ((raw - min_r rng) * 100) \<and> is_LONG (max_r rng - min_r rng)"
      using raw_domain_fits_LONG [of raw rng] by simp
    with True between show ?thesis by simp
  next
    case False
    with assms show ?thesis
      by (auto simp: updateAxis_low updateAxis_high)
  qed
qed

text \<open>
  The amended claim C5 at the raw value 1000 on the default range, where 100000 / 4095
  is 24, and at the two ends of that range.
\<close>

theorem updateAxis_saturating_interpolation_witness:
  "updateAxis 1000 \<lparr>min_r = 0, max_r = 4095\<rparr> = Inr 24 \<and>
   calPercent 1000 \<lparr>min_r = 0, max_r = 4095\<rparr> = Inr 24 \<and>
   updateAxis 0 \<lparr>min_r = 0, max_r = 4095\<rparr> = Inr 0 \<and>
   updateAxis 4095 \<lparr>min_r = 0, max_r = 4095\<rparr> = Inr 100"
  using updateAxis_saturating_interpolation [of "\<lparr>min_r = 0, max_r = 4095\<rparr>" 1000]
    updateAxis_saturating_interpolation [of "\<lparr>min_r = 0, max_r = 4095\<rparr>" 0]
    updateAxis_saturating_interpolation [of "\<lparr>min_r = 0, max_r = 4095\<rparr>" 4095]
  by (simp add: is_LONG_def)

subsection \<open>Sequencing and saving\<close>

lemma and_then_Inr_iff: "and_then r f = Inr b \<longleftrightarrow> (\<exists>a. r = Inr a \<and> f a = Inr b)"
  by (cases r) (simp_all add: and_then_def)

lemma and_then_Inl_iff: "and_then r f = Inl e \<longleftrightarrow> r = Inl e \<or> (\<exists>a. r = Inr a \<and> f a = Inl e)"
  by (cases r) (simp_all add: and_then_def)

lemma and_then_Inr [simp]: "and_then (Inr a) f = f a"
  by (simp add: and_then_def)

lemma and_then_Inl [simp]: "and_then (Inl e) f = Inl e"
  by (simp add: and_then_def)

lemma save_Inr: "save d i w = Inr w' \<Longrightarrow> w' = w\<lparr>HKCU := HKCU w'\<rparr>"
  by (auto simp: save_def split: sum.splits)

lemma save_fields:
  assumes "save d i w = Inr w'"
  shows "m_calibrated w' = m_calibrated w" "calibrationHistory w' = calibrationHistory w"
    "xRange w' = xRange w" "zRange w' = zRange w" "ryRange w' = ryRange w"
    "currentXRaw w' = currentXRaw w" "currentZRaw w' = currentZRaw w"
    "currentRYRaw w' = currentRYRaw w" "calBars w' = calBars w"
  using assms by (auto simp: save_def split: sum.splits)

subsection \<open>The calibration history\<close>

lemma backupCurrentCalibration_history:
  "calibrationHistory (backupCurrentCalibration w) =
     (if length (calibrationHistory w) \<ge> 10
      then tl (calibrationHistory w @ [\<lparr>x_range = xRange w, z_range = zRange w, ry_range = ryRange w\<rparr>])
      else calibrationHistory w @ [\<lparr>x_range = xRange w, z_range = zRange w, ry_range = ryRange w\<rparr>])"
  by (simp add: backupCurrentCalibration_def Let_def)

lemma snapshot_eta:
  "\<lparr>x_range = x_range b, z_range = z_range b, ry_range = ry_range b\<rparr> = (b :: CalibrationBackup)"
  by (cases b) simp

lemma backup_with_ranges:
  assumes "length (calibrationHistory w) \<le> 10"
  shows "calibrationHistory (backupCurrentCalibration (with_ranges b w)) =
     drop (length (calibrationHistory w) + 1 - 10) (calibrationHistory w @ [b])"
proof (cases "calibrationHistory w")
  case Nil
  then show ?thesis
    by (simp add: backupCurrentCalibration_def with_ranges_def Let_def snapshot_eta)
next
  case (Cons a h)
  with assms show ?thesis
    by (cases "length h = 9")
       (simp_all add: backupCurrentCalibration_def with_ranges_def Let_def snapshot_eta)
qed

lemma backup_all_history:
  "length (calibrationHistory w) \<le> 10 \<Longrightarrow>
   calibrationHistory (backup_all bs w) =
     drop (length (calibrationHistory w) + length bs - 10) (calibrationHistory w @ bs)"
proof (induction bs arbitrary: w)
  case Nil
  then show ?case by (simp add: backup_all_def)
next
  case (Cons b bs)
  let ?w = "backupCurrentCalibration (with_ranges b w)"
  let ?h = "calibrationHistory w"
  have h': "calibrationHistory ?w = drop (length ?h + 1 - 10) (?h @ [b])"
    using Cons.prems by (rule backup_with_ranges)
  then have len: "length (calibrationHistory ?w) \<le> 10"
    using Cons.prems by simp
  have "calibrationHistory (backup_all (b # bs) w) = calibrationHistory (backup_all bs ?w)"
    by (simp add: backup_all_def)
  also have "\<dots> = drop (length (calibrationHistory ?w) + length bs - 10) (calibrationHistory ?w @ bs)"
    using len by (rule Cons.IH)
  also have "\<dots> = drop (length ?h + length (b # bs) - 10) (?h @ b # bs)"
  proof (cases "length ?h = 10")
    case True
    then show ?thesis by (simp add: h')
  next
    case False
    with Cons.prems have "length ?h < 10" by simp
    then show ?thesis by (simp add: h')
  qed
  finally show ?case .
qed


text \<open>
  Claim C8: the backup appends the current snapshot at the end of the history and, when
  the size then exceeds 10, removes the entry at index 0; so eleven backups into an empty
  history leave exactly ten snapshots, all but the first one, in the order they were
  pushed.
\<close>

theorem backup_appends_and_evicts_oldest:
  "calibrationHistory (backupCurrentCalibration w) =
     (if 10 \<le> length (calibrationHistory w)
      then tl (calibrationHistory w) @ [\<lparr>x_range = xRange w, z_range = zRange w, ry_range = ryRange w\<rparr>]
      else calibrationHistory w @ [\<lparr>x_range = xRange w, z_range = zRange w, ry_range = ryRange w\<rparr>]) \<and>
   (calibrationHistory w = [] \<and> length bs = 11 \<longrightarrow>
      calibrationHistory (backup_all bs w) = tl bs \<and>
      length (calibrationHistory (backup_all bs w)) = 10)"
proof (intro conjI impI)
  show "calibrationHistory (backupCurrentCalibration w) =
     (if 10 \<le> length (calibrationHistory w)
      then tl (calibrationHistory w) @ [\<lparr>x_range = xRange w, z_range = zRange w, ry_range = ryRange w\<rparr>]
      else calibrationHistory w @ [\<lparr>x_range = xRange w, z_range = zRange w, ry_range = ryRange w\<rparr>])"
    by (cases "calibrationHistory w") (simp_all add: backupCurrentCalibration_def Let_def)
next
  assume a: "calibrationHistory w = [] \<and> length bs = 11"
  then have "calibrationHistory (backup_all bs w) = drop (0 + length bs - 10) ([] @ bs)"
    using backup_all_history [of w bs] by simp
  with a show "calibrationHistory (backup_all bs w) = tl bs"
    by (simp add: drop_Suc)
  with a show "length (calibrationHistory (backup_all bs w)) = 10"
    by simp
qed

text \<open>
  Claim C8 on eleven snapshots that differ in the lower bound of the X range, pushed
  into the empty history of a fresh window.
\<close>

theorem backup_appends_and_evicts_oldest_witness:
  "calibrationHistory
     (backup_all
        (map (\<lambda>n. \<lparr>x_range = \<lparr>min_r = n, max_r = 4095\<rparr>, z_range = \<lparr>min_r = 0, max_r = 4095\<rparr>,
                    ry_range = \<lparr>min_r = 0, max_r = 4095\<rparr>\<rparr>) [1, 2, 3, 4, 5, 6, 7, 8, 9, 10, 11])
        (MainWindow_init Map.empty)) =
   map (\<lambda>n. \<lparr>x_range = \<lparr>min_r = n, max_r = 4095\<rparr>, z_range = \<lparr>min_r = 0, max_r = 4095\<rparr>,
               ry_range = \<lparr>min_r = 0, max_r = 4095\<rparr>\<rparr>) [2, 3, 4, 5, 6, 7, 8, 9, 10, 11]"
  using backup_appends_and_evicts_oldest
    [of "MainWindow_init Map.empty"
        "map (\<lambda>n. \<lparr>x_range = \<lparr>min_r = n, max_r = 4095\<rparr>, z_range = \<lparr>min_r = 0, max_r = 4095\<rparr>,
                    ry_range = \<lparr>min_r = 0, max_r = 4095\<rparr>\<rparr>) [1, 2, 3, 4, 5, 6, 7, 8, 9, 10, 11]"]
  by (simp add: MainWindow_init_def)

subsection \<open>Reset and restore defaults\<close>

text \<open>The three strings that a reset saves, parsed.\<close>

lemma default_records:
  "calibration_record ''MinX=0;MaxX=4095;'' 0 =
     Inr \<lparr>min_c = 0, mid_c = 2047, max_c = 4095, minDeadzone = 0, maxDeadzone = 0\<rparr>"
  "calibration_record ''MinZ=0;MaxZ=4095;'' 1 =
     Inr \<lparr>min_c = 0, mid_c = 2047, max_c = 4095, minDeadzone = 0, maxDeadzone = 0\<rparr>"
  "calibration_record ''MinRY=0;MaxRY=4095;'' 2 =
     Inr \<lparr>min_c = 0, mid_c = 2047, max_c = 4095, minDeadzone = 0, maxDeadzone = 0\<rparr>"
  by (simp_all add: calibration_record_def parse_tokens.simps find_semicolon_def parse_token_def
      token_chain_def starts_with_def assign_def stoul_def iswspace_def iswdigit_def
      digits_value_def digit_value_def parsed_init_def)

lemma save_total:
  "calibration_record d i = Inr r \<Longrightarrow> \<exists>reg. save d i w = Inr (w\<lparr>HKCU := reg\<rparr>)"
proof (cases "HKCU w (axisPath i)")
  case None
  assume "calibration_record d i = Inr r"
  with None have "save d i w = Inr (w\<lparr>HKCU := HKCU w\<rparr>)"
    by (simp add: save_def saveCalibrationToRegistry_def)
  then show ?thesis by blast
next
  case (Some vals)
  assume "calibration_record d i = Inr r"
  with Some have "save d i w =
      Inr (w\<lparr>HKCU := (HKCU w)(axisPath i \<mapsto> vals(''Calibration'' \<mapsto> record_bytes r))\<rparr>)"
    by (simp add: save_def saveCalibrationToRegistry_def)
  then show ?thesis by blast
qed

lemma restoreDefaults_eq: "restoreDefaults w = resetCalibration (backupCurrentCalibration w)"
  by (simp add: restoreDefaults_def resetCalibration_def backupCurrentCalibration_def Let_def)

lemma resetCalibration_total:
  "\<exists>reg. resetCalibration w =
     Inr (w\<lparr>m_calibrated := False,
             xRange := \<lparr>min_r = 0, max_r = 4095\<rparr>,
             zRange := \<lparr>min_r = 0, max_r = 4095\<rparr>,
             ryRange := \<lparr>min_r = 0, max_r = 4095\<rparr>,
             HKCU := reg\<rparr>)"
proof -
  let ?w1 = "w\<lparr>m_calibrated := False,
             xRange := \<lparr>min_r = 0, max_r = 4095\<rparr>,
             zRange := \<lparr>min_r = 0, max_r = 4095\<rparr>,
             ryRange := \<lparr>min_r = 0, max_r = 4095\<rparr>\<rparr>"
  obtain r1 where 1: "save ''MinX=0;MaxX=4095;'' 0 ?w1 = Inr (?w1\<lparr>HKCU := r1\<rparr>)"
    using save_total [OF default_records(1)] by blast
  obtain r2 where 2: "save ''MinZ=0;MaxZ=4095;'' 1 (?w1\<lparr>HKCU := r1\<rparr>) = Inr (?w1\<lparr>HKCU := r1, HKCU := r2\<rparr>)"
    using save_total [OF default_records(2)] by blast
  obtain r3 where 3: "save ''MinRY=0;MaxRY=4095;'' 2 (?w1\<lparr>HKCU := r1, HKCU := r2\<rparr>) = Inr (?w1\<lparr>HKCU := r1, HKCU := r2, HKCU := r3\<rparr>)"
    using save_total [OF default_records(3)] by blast
  have "resetCalibration w = Inr (?w1\<lparr>HKCU := r3\<rparr>)"
    using 1 2 3 by (simp add: resetCalibration_def Let_def)
  then show ?thesis by blast
qed

subsection \<open>Numbers written and read back\<close>

lemma digit_char_code: "d < 10 \<Longrightarrow> of_char (digit_char d) = (48 + d :: nat)"
proof -
  assume "d < 10"
  then have "d \<in> {0, 1, 2, 3, 4, 5, 6, 7, 8, 9}" by auto
  then show ?thesis by (auto simp: digit_char_def)
qed

lemma digit_char_props:
  assumes "d < 10"
  shows "iswdigit (digit_char d)" "digit_value (digit_char d) = d"
    "\<not> iswspace (digit_char d)" "digit_char d \<noteq> CHR ''-''" "digit_char d \<noteq> CHR ''+''"
    "digit_char d \<noteq> CHR '';''"
  using digit_char_code [OF assms] assms
  by (auto simp: iswdigit_def digit_value_def iswspace_def)

lemma digits_value_snoc: "digits_value (ds @ [c]) = 10 * digits_value ds + digit_value c"
  by (simp add: digits_value_def)

lemma decimal_not_Nil: "decimal n \<noteq> []"
  by (subst decimal.simps) simp

lemma decimal_digits: "c \<in> set (decimal n) \<Longrightarrow> iswdigit c \<and> c \<noteq> CHR '';''"
proof (induction n rule: decimal.induct)
  case (1 n)
  show ?case
  proof (cases "n < 10")
    case True
    with "1.prems" show ?thesis
      by (subst (asm) decimal.simps) (simp add: digit_char_props)
  next
    case False
    with "1.prems" have "c \<in> set (decimal (n div 10)) \<or> c = digit_char (n mod 10)"
      by (subst (asm) decimal.simps) auto
    with False "1.IH" show ?thesis
      by (auto simp: digit_char_props)
  qed
qed

lemma decimal_value: "digits_value (decimal n) = n"
proof (induction n rule: decimal.induct)
  case (1 n)
  show ?case
  proof (cases "n < 10")
    case True
    then show ?thesis
      by (subst decimal.simps) (simp add: digits_value_def digit_char_props)
  next
    case False
    with "1.IH" show ?thesis
      by (subst decimal.simps) (simp add: digits_value_snoc digit_char_props)
  qed
qed

lemma decimal_hd: "iswdigit (hd (decimal n))"
  using decimal_digits [of "hd (decimal n)" n] decimal_not_Nil [of n] by simp

lemma iswdigit_not_others:
  "iswdigit c \<Longrightarrow> \<not> iswspace c \<and> c \<noteq> CHR ''-'' \<and> c \<noteq> CHR ''+''"
  by (auto simp: iswdigit_def iswspace_def)

lemma stoul_digits:
  assumes "ds \<noteq> []" and "\<And>c. c \<in> set ds \<Longrightarrow> iswdigit c" and "digits_value ds \<le> 4294967295"
  shows "stoul ds = Inr (word_of_nat (digits_value ds))"
    and "stoul (CHR ''-'' # ds) = Inr (- word_of_nat (digits_value ds))"
proof -
  from assms(1,2) have hd: "iswdigit (hd ds)"
    by simp
  have tw: "takeWhile iswdigit ds = ds"
    using assms(2) by (simp add: takeWhile_eq_all_conv)
  from hd assms(1) have dw: "dropWhile iswspace ds = ds"
    using iswdigit_not_others [of "hd ds"] by (cases ds) simp_all
  from hd have sign: "hd ds \<noteq> CHR ''-''" "hd ds \<noteq> CHR ''+''"
    using iswdigit_not_others [of "hd ds"] by simp_all
  show "stoul ds = Inr (word_of_nat (digits_value ds))"
    unfolding stoul_def Let_def dw
    using assms(1,3) by (simp add: sign tw)
  have "\<not> iswspace CHR ''-''"
    by (simp add: iswspace_def)
  then have dw': "dropWhile iswspace (CHR ''-'' # ds) = CHR ''-'' # ds"
    by simp
  show "stoul (CHR ''-'' # ds) = Inr (- word_of_nat (digits_value ds))"
    unfolding stoul_def Let_def dw'
    using assms(1,3) by (simp add: tw)
qed

lemma stoul_decimal:
  assumes "n \<le> 4294967295"
  shows "stoul (decimal n) = Inr (word_of_nat n)"
    and "stoul (CHR ''-'' # decimal n) = Inr (- word_of_nat n)"
  using stoul_digits [of "decimal n"] assms
  by (simp_all add: decimal_not_Nil decimal_digits decimal_value)

lemma stoul_to_wstring:
  assumes "is_LONG n"
  shows "stoul (to_wstring n) = Inr (word_of_int n)"
proof (cases "n < 0")
  case True
  with assms have "nat (- n) \<le> 4294967295"
    by (simp add: is_LONG_def)
  then have "stoul (CHR ''-'' # decimal (nat (- n))) = Inr (- word_of_nat (nat (- n)))"
    by (rule stoul_decimal)
  moreover from True have "- (word_of_nat (nat (- n)) :: 32 word) = word_of_int n"
    by (simp add: word_of_nat_eq_iff) 
  ultimately show ?thesis
    using True by (simp add: to_wstring_def)
next
  case False
  with assms have "nat n \<le> 4294967295"
    by (simp add: is_LONG_def)
  then have "stoul (decimal (nat n)) = Inr (word_of_nat (nat n))"
    by (rule stoul_decimal)
  with False show ?thesis
    by (simp add: to_wstring_def)
qed

lemma to_wstring_no_semicolon: "CHR '';'' \<notin> set (to_wstring n)"
  using decimal_digits by (auto simp: to_wstring_def)


subsection \<open>What the window's strings are parsed to\<close>

lemma find_semicolon_append:
  "CHR '';'' \<notin> set t \<Longrightarrow> find_semicolon (t @ CHR '';'' # r) = Some (t, r)"
  by (induction t) (auto simp: find_semicolon_def)

lemma find_semicolon_Nil: "find_semicolon [] = None"
  by (simp add: find_semicolon_def)

lemma parse_tokens_Nil: "parse_tokens i [] v = Inr v"
  by (subst parse_tokens.simps) (simp add: find_semicolon_Nil)

lemma parse_tokens_token:
  "CHR '';'' \<notin> set t \<Longrightarrow>
   parse_tokens i (t @ CHR '';'' # r) v =
     (case parse_token i t v of Inl e \<Rightarrow> Inl e | Inr v' \<Rightarrow> parse_tokens i r v')"
  by (subst parse_tokens.simps) (simp add: find_semicolon_append)

lemma two_tokens:
  assumes "CHR '';'' \<notin> set t1" "CHR '';'' \<notin> set t2"
    and "parse_token i t1 v = Inr v1" and "parse_token i t2 v1 = Inr v2"
  shows "parse_tokens i (t1 @ '';'' @ t2 @ '';'') v = Inr v2"
proof -
  have "parse_tokens i (t1 @ CHR '';'' # (t2 @ CHR '';'' # [])) v = parse_tokens i (t2 @ CHR '';'' # []) v1"
    using assms(3) by (simp add: parse_tokens_token [OF assms(1)])
  also have "\<dots> = Inr v2"
    using assms(4) by (simp add: parse_tokens_token [OF assms(2)] parse_tokens_Nil)
  finally show ?thesis by simp
qed

lemma window_string_record:
  assumes "is_LONG a" "is_LONG b"
  shows "calibration_record (''MinX='' @ to_wstring a @ '';MaxX='' @ to_wstring b @ '';'') 0 =
           Inr \<lparr>min_c = word_of_int a, mid_c = (word_of_int a + word_of_int b) div 2,
                max_c = word_of_int b, minDeadzone = 0, maxDeadzone = 0\<rparr>"
    and "calibration_record (''MinZ='' @ to_wstring a @ '';MaxZ='' @ to_wstring b @ '';'') 1 =
           Inr \<lparr>min_c = word_of_int a, mid_c = (word_of_int a + word_of_int b) div 2,
                max_c = word_of_int b, minDeadzone = 0, maxDeadzone = 0\<rparr>"
    and "calibration_record (''MinRY='' @ to_wstring a @ '';MaxRY='' @ to_wstring b @ '';'') 2 =
           Inr \<lparr>min_c = word_of_int a, mid_c = (word_of_int a + word_of_int b) div 2,
                max_c = word_of_int b, minDeadzone = 0, maxDeadzone = 0\<rparr>"
proof -
  note sa = stoul_to_wstring [OF assms(1)] and sb = stoul_to_wstring [OF assms(2)]
  let ?v1 = "parsed_init\<lparr>p_min := word_of_int a\<rparr>"
  let ?v2 = "parsed_init\<lparr>p_min := word_of_int a, p_max := word_of_int b\<rparr>"
  have "parse_tokens 0 ((''MinX='' @ to_wstring a) @ '';'' @ (''MaxX='' @ to_wstring b) @ '';'') parsed_init = Inr ?v2"
    by (rule two_tokens [where ?v1.0 = ?v1])
       (simp_all add: to_wstring_no_semicolon parse_token_def token_chain_def starts_with_def
         assign_def sa sb)
  then show "calibration_record (''MinX='' @ to_wstring a @ '';MaxX='' @ to_wstring b @ '';'') 0 =
           Inr \<lparr>min_c = word_of_int a, mid_c = (word_of_int a + word_of_int b) div 2,
                max_c = word_of_int b, minDeadzone = 0, maxDeadzone = 0\<rparr>"
    by (simp add: calibration_record_def parsed_init_def)
  have "parse_tokens 1 ((''MinZ='' @ to_wstring a) @ '';'' @ (''MaxZ='' @ to_wstring b) @ '';'') parsed_init = Inr ?v2"
    by (rule two_tokens [where ?v1.0 = ?v1])
       (simp_all add: to_wstring_no_semicolon parse_token_def token_chain_def starts_with_def
         assign_def sa sb)
  then show "calibration_record (''MinZ='' @ to_wstring a @ '';MaxZ='' @ to_wstring b @ '';'') 1 =
           Inr \<lparr>min_c = word_of_int a, mid_c = (word_of_int a + word_of_int b) div 2,
                max_c = word_of_int b, minDeadzone = 0, maxDeadzone = 0\<rparr>"
    by (simp add: calibration_record_def parsed_init_def)
  have "parse_tokens 2 ((''MinRY='' @ to_wstring a) @ '';'' @ (''MaxRY='' @ to_wstring b) @ '';'') parsed_init = Inr ?v2"
    by (rule two_tokens [where ?v1.0 = ?v1])
       (simp_all add: to_wstring_no_semicolon parse_token_def token_chain_def starts_with_def
         assign_def sa sb)
  then show "calibration_record (''MinRY='' @ to_wstring a @ '';MaxRY='' @ to_wstring b @ '';'') 2 =
           Inr \<lparr>min_c = word_of_int a, mid_c = (word_of_int a + word_of_int b) div 2,
                max_c = word_of_int b, minDeadzone = 0, maxDeadzone = 0\<rparr>"
    by (simp add: calibration_record_def parsed_init_def)
qed

subsection \<open>Every operation completes\<close>

lemma save_window_string:
  assumes "is_LONG a" "is_LONG b"
  shows "\<exists>reg. save (''MinX='' @ to_wstring a @ '';MaxX='' @ to_wstring b @ '';'') 0 w = Inr (w\<lparr>HKCU := reg\<rparr>)"
    and "\<exists>reg. save (''MinZ='' @ to_wstring a @ '';MaxZ='' @ to_wstring b @ '';'') 1 w = Inr (w\<lparr>HKCU := reg\<rparr>)"
    and "\<exists>reg. save (''MinRY='' @ to_wstring a @ '';MaxRY='' @ to_wstring b @ '';'') 2 w = Inr (w\<lparr>HKCU := reg\<rparr>)"
  using window_string_record [OF assms] by (blast intro: save_total)+

lemma LONG_window_HKCU [simp]: "LONG_window (w\<lparr>HKCU := reg\<rparr>) = LONG_window w"
  by (simp add: LONG_window_def)

lemma LONG_window_m_calibrated [simp]: "LONG_window (w\<lparr>m_calibrated := b\<rparr>) = LONG_window w"
  by (simp add: LONG_window_def)

lemma LONG_window_calBars [simp]: "LONG_window (w\<lparr>calBars := b\<rparr>) = LONG_window w"
  by (simp add: LONG_window_def)

lemma is_LONG_defaults [simp]: "is_LONG 0" "is_LONG 4095"
  by (simp_all add: is_LONG_def)

lemma setAxisMin_total:
  assumes "LONG_window w"
  shows "\<exists>w'. setAxisMin axis w = Inr w' \<and> LONG_window w' \<and> m_calibrated w' = m_calibrated w
            \<and> calibrationHistory w' = calibrationHistory w"
proof -
  consider "axis = 0" | "axis = 1" | "axis = 2" | "axis \<noteq> 0 \<and> axis \<noteq> 1 \<and> axis \<noteq> 2"
    by blast
  then show ?thesis
  proof cases
    case 1
    let ?w1 = "w\<lparr>xRange := (xRange w)\<lparr>min_r := currentXRaw w\<rparr>\<rparr>"
    from assms have "is_LONG (currentXRaw w)" "is_LONG (max_r (xRange w))"
      by (simp_all add: LONG_window_def LONG_range_def)
    from save_window_string(1) [OF this, of ?w1] obtain reg where
      "save (''MinX='' @ to_wstring (currentXRaw w) @ '';MaxX='' @ to_wstring (max_r (xRange w)) @ '';'') 0 ?w1
         = Inr (?w1\<lparr>HKCU := reg\<rparr>)" by blast
    with 1 assms show ?thesis
      by (simp add: setAxisMin_def Let_def LONG_window_def LONG_range_def)
  next
    case 2
    let ?w1 = "w\<lparr>zRange := (zRange w)\<lparr>min_r := currentZRaw w\<rparr>\<rparr>"
    from assms have "is_LONG (currentZRaw w)" "is_LONG (max_r (zRange w))"
      by (simp_all add: LONG_window_def LONG_range_def)
    from save_window_string(2) [OF this, of ?w1] obtain reg where
      "save (''MinZ='' @ to_wstring (currentZRaw w) @ '';MaxZ='' @ to_wstring (max_r (zRange w)) @ '';'') 1 ?w1
         = Inr (?w1\<lparr>HKCU := reg\<rparr>)" by blast
    with 2 assms show ?thesis
      by (simp add: setAxisMin_def Let_def LONG_window_def LONG_range_def)
  next
    case 3
    let ?w1 = "w\<lparr>ryRange := (ryRange w)\<lparr>min_r := currentRYRaw w\<rparr>\<rparr>"
    from assms have "is_LONG (currentRYRaw w)" "is_LONG (max_r (ryRange w))"
      by (simp_all add: LONG_window_def LONG_range_def)
    from save_window_string(3) [OF this, of ?w1] obtain reg where
      "save (''MinRY='' @ to_wstring (currentRYRaw w) @ '';MaxRY='' @ to_wstring (max_r (ryRange w)) @ '';'') 2 ?w1
         = Inr (?w1\<lparr>HKCU := reg\<rparr>)" by blast
    with 3 assms show ?thesis
      by (simp add: setAxisMin_def Let_def LONG_window_def LONG_range_def)
  next
    case 4
    with assms show ?thesis
      by (simp add: setAxisMin_def)
  qed
qed

lemma setAxisMax_total:
  assumes "LONG_window w"
  shows "\<exists>w'. setAxisMax axis w = Inr w' \<and> LONG_window w'
            \<and> (m_calibrated w' \<longleftrightarrow> m_calibrated w \<or> axis \<in> {0, 1, 2})
            \<and> calibrationHistory w' = calibrationHistory w"
proof -
  consider "axis = 0" | "axis = 1" | "axis = 2" | "axis \<noteq> 0 \<and> axis \<noteq> 1 \<and> axis \<noteq> 2"
    by blast
  then show ?thesis
  proof cases
    case 1
    let ?w1 = "w\<lparr>xRange := (xRange w)\<lparr>max_r := currentXRaw w\<rparr>\<rparr>"
    from assms have "is_LONG (min_r (xRange w))" "is_LONG (currentXRaw w)"
      by (simp_all add: LONG_window_def LONG_range_def)
    from save_window_string(1) [OF this, of ?w1] obtain reg where
      "save (''MinX='' @ to_wstring (min_r (xRange w)) @ '';MaxX='' @ to_wstring (currentXRaw w) @ '';'') 0 ?w1
         = Inr (?w1\<lparr>HKCU := reg\<rparr>)" by blast
    with 1 assms show ?thesis
      by (simp add: setAxisMax_def Let_def LONG_window_def LONG_range_def)
  next
    case 2
    let ?w1 = "w\<lparr>zRange := (zRange w)\<lparr>max_r := currentZRaw w\<rparr>\<rparr>"
    from assms have "is_LONG (min_r (zRange w))" "is_LONG (currentZRaw w)"
      by (simp_all add: LONG_window_def LONG_range_def)
    from save_window_string(2) [OF this, of ?w1] obtain reg where
      "save (''MinZ='' @ to_wstring (min_r (zRange w)) @ '';MaxZ='' @ to_wstring (currentZRaw w) @ '';'') 1 ?w1
         = Inr (?w1\<lparr>HKCU := reg\<rparr>)" by blast
    with 2 assms show ?thesis
      by (simp add: setAxisMax_def Let_def LONG_window_def LONG_range_def)
  next
    case 3
    let ?w1 = "w\<lparr>ryRange := (ryRange w)\<lparr>max_r := currentRYRaw w\<rparr>\<rparr>"
    from assms have "is_LONG (min_r (ryRange w))" "is_LONG (currentRYRaw w)"
      by (simp_all add: LONG_window_def LONG_range_def)
    from save_window_string(3) [OF this, of ?w1] obtain reg where
      "save (''MinRY='' @ to_wstring (min_r (ryRange w)) @ '';MaxRY='' @ to_wstring (currentRYRaw w) @ '';'') 2 ?w1
         = Inr (?w1\<lparr>HKCU := reg\<rparr>)" by blast
    with 3 assms show ?thesis
      by (simp add: setAxisMax_def Let_def LONG_window_def LONG_range_def)
  next
    case 4
    with assms show ?thesis
      by (simp add: setAxisMax_def)
  qed
qed

lemma resetCalibration_result:
  "\<exists>w'. resetCalibration w = Inr w' \<and>
     xRange w' = \<lparr>min_r = 0, max_r = 4095\<rparr> \<and> zRange w' = \<lparr>min_r = 0, max_r = 4095\<rparr> \<and>
     ryRange w' = \<lparr>min_r = 0, max_r = 4095\<rparr> \<and> \<not> m_calibrated w' \<and>
     calibrationHistory w' = calibrationHistory w \<and>
     currentXRaw w' = currentXRaw w \<and> currentZRaw w' = currentZRaw w \<and>
     currentRYRaw w' = currentRYRaw w"
proof -
  from resetCalibration_total [of w] obtain reg where
    "resetCalibration w =
     Inr (w\<lparr>m_calibrated := False,
             xRange := \<lparr>min_r = 0, max_r = 4095\<rparr>,
             zRange := \<lparr>min_r = 0, max_r = 4095\<rparr>,
             ryRange := \<lparr>min_r = 0, max_r = 4095\<rparr>,
             HKCU := reg\<rparr>)" by blast
  then show ?thesis by simp
qed

lemma backupCurrentCalibration_fields [simp]:
  "xRange (backupCurrentCalibration w) = xRange w"
  "zRange (backupCurrentCalibration w) = zRange w"
  "ryRange (backupCurrentCalibration w) = ryRange w"
  "m_calibrated (backupCurrentCalibration w) = m_calibrated w"
  "currentXRaw (backupCurrentCalibration w) = currentXRaw w"
  "currentZRaw (backupCurrentCalibration w) = currentZRaw w"
  "currentRYRaw (backupCurrentCalibration w) = currentRYRaw w"
  by (simp_all add: backupCurrentCalibration_def Let_def)

lemma list_all_tl: "list_all P xs \<Longrightarrow> list_all P (tl xs)"
  by (cases xs) simp_all

lemma list_all_butlast: "list_all P xs \<Longrightarrow> list_all P (butlast xs)"
  by (induction xs) simp_all

lemma list_all_last: "list_all P xs \<Longrightarrow> xs \<noteq> [] \<Longrightarrow> P (last xs)"
  by (induction xs) simp_all

lemma LONG_window_backup: "LONG_window w \<Longrightarrow> LONG_window (backupCurrentCalibration w)"
  by (auto simp: LONG_window_def backupCurrentCalibration_history LONG_backup_def intro: list_all_tl)

lemma restoreLastCalibration_total:
  assumes "LONG_window w"
  shows "\<exists>w'. restoreLastCalibration w = Inr w' \<and> LONG_window w' \<and>
      m_calibrated w' = m_calibrated w \<and>
      calibrationHistory w' = butlast (calibrationHistory w)"
proof (cases "calibrationHistory w = []")
  case True
  with assms show ?thesis
    by (simp add: restoreLastCalibration_def)
next
  case False
  let ?b = "last (calibrationHistory w)"
  let ?w1 = "w\<lparr>xRange := x_range ?b, zRange := z_range ?b, ryRange := ry_range ?b,
              calibrationHistory := butlast (calibrationHistory w)\<rparr>"
  from assms False have b: "LONG_backup ?b"
    by (simp add: LONG_window_def list_all_last)
  then have l: "is_LONG (min_r (x_range ?b))" "is_LONG (max_r (x_range ?b))"
    "is_LONG (min_r (z_range ?b))" "is_LONG (max_r (z_range ?b))"
    "is_LONG (min_r (ry_range ?b))" "is_LONG (max_r (ry_range ?b))"
    by (simp_all add: LONG_backup_def LONG_range_def)
  from save_window_string(1) [OF l(1,2), of ?w1] obtain r1 where
    1: "save (''MinX='' @ to_wstring (min_r (x_range ?b)) @ '';MaxX='' @ to_wstring (max_r (x_range ?b)) @ '';'') 0 ?w1
         = Inr (?w1\<lparr>HKCU := r1\<rparr>)" by blast
  from save_window_string(2) [OF l(3,4), of "?w1\<lparr>HKCU := r1\<rparr>"] obtain r2 where
    2: "save (''MinZ='' @ to_wstring (min_r (z_range ?b)) @ '';MaxZ='' @ to_wstring (max_r (z_range ?b)) @ '';'') 1 (?w1\<lparr>HKCU := r1\<rparr>)
         = Inr (?w1\<lparr>HKCU := r1, HKCU := r2\<rparr>)" by blast
  from save_window_string(3) [OF l(5,6), of "?w1\<lparr>HKCU := r1, HKCU := r2\<rparr>"] obtain r3 where
    3: "save (''MinRY='' @ to_wstring (min_r (ry_range ?b)) @ '';MaxRY='' @ to_wstring (max_r (ry_range ?b)) @ '';'') 2 (?w1\<lparr>HKCU := r1, HKCU := r2\<rparr>)
         = Inr (?w1\<lparr>HKCU := r1, HKCU := r2, HKCU := r3\<rparr>)" by blast
  have "restoreLastCalibration w = Inr (?w1\<lparr>HKCU := r3\<rparr>)"
    using False 1 2 3 by (simp add: restoreLastCalibration_def Let_def)
  moreover have "LONG_window (?w1\<lparr>HKCU := r3\<rparr>)"
    using assms b by (simp add: LONG_window_def LONG_backup_def list_all_butlast)
  ultimately show ?thesis by simp
qed

text \<open>
  A tick changes neither the flag nor the history, and keeps \<^verbatim>\<open>LONG\<close> values.
\<close>

lemma updateValues_Inr:
  assumes "updateValues sample w = Inr w'"
  shows "m_calibrated w' = m_calibrated w \<and> calibrationHistory w' = calibrationHistory w \<and>
      (LONG_operation (Tick sample) \<and> LONG_window w \<longrightarrow> LONG_window w')"
proof (cases sample)
  case None
  with assms show ?thesis by (simp add: updateValues_def)
next
  case (Some t)
  obtain lX lZ lRy where "t = (lX, lZ, lRy)" by (cases t)
  with Some assms show ?thesis
    by (auto simp: updateValues_def Let_def and_then_Inr_iff LONG_window_def)
qed

lemma step_LONG_window:
  assumes "LONG_window w" "LONG_operation op" "step op w = Inr w'"
  shows "LONG_window w'"
proof (cases op)
  case (SetMin axis)
  with setAxisMin_total [OF assms(1), of axis] assms(3) show ?thesis by auto
next
  case (SetMax axis)
  with setAxisMax_total [OF assms(1), of axis] assms(3) show ?thesis by auto
next
  case Reset
  from resetCalibration_result [of w] obtain w1 where
    "resetCalibration w = Inr w1" "xRange w1 = \<lparr>min_r = 0, max_r = 4095\<rparr>"
    "zRange w1 = \<lparr>min_r = 0, max_r = 4095\<rparr>" "ryRange w1 = \<lparr>min_r = 0, max_r = 4095\<rparr>"
    "calibrationHistory w1 = calibrationHistory w" "currentXRaw w1 = currentXRaw w"
    "currentZRaw w1 = currentZRaw w" "currentRYRaw w1 = currentRYRaw w"
    by blast
  with Reset assms(1,3) show ?thesis
    by (simp add: LONG_window_def LONG_range_def)
next
  case RestoreDefaults
  let ?w0 = "backupCurrentCalibration w"
  from resetCalibration_result [of ?w0] obtain w1 where
    "resetCalibration ?w0 = Inr w1" "xRange w1 = \<lparr>min_r = 0, max_r = 4095\<rparr>"
    "zRange w1 = \<lparr>min_r = 0, max_r = 4095\<rparr>" "ryRange w1 = \<lparr>min_r = 0, max_r = 4095\<rparr>"
    "calibrationHistory w1 = calibrationHistory ?w0" "currentXRaw w1 = currentXRaw ?w0"
    "currentZRaw w1 = currentZRaw ?w0" "currentRYRaw w1 = currentRYRaw ?w0"
    by blast
  with RestoreDefaults LONG_window_backup [OF assms(1)] assms(3) show ?thesis
    by (simp add: restoreDefaults_eq LONG_window_def LONG_range_def)
next
  case RestoreLast
  with restoreLastCalibration_total [OF assms(1)] assms(3) show ?thesis by auto
next
  case (Tick sample)
  with updateValues_Inr [of sample w w'] assms show ?thesis by simp
qed

subsection \<open>No operation divides by zero\<close>

lemma stoul_failure: "stoul str \<noteq> Inl divide_by_zero"
  by (simp add: stoul_def Let_def)

lemma assign_failure: "assign upd (stoul str) \<noteq> Inl divide_by_zero"
  using stoul_failure [of str] by (cases "stoul str") (simp_all add: assign_def)

lemma parse_token_failure: "parse_token i token v \<noteq> Inl divide_by_zero"
  by (simp add: parse_token_def token_chain_def assign_failure)

lemma parse_tokens_failure: "parse_tokens i rest v \<noteq> Inl divide_by_zero"
proof (induction i rest v rule: parse_tokens.induct)
  case (1 axisIndex rest v)
  show ?case
  proof (cases "find_semicolon rest")
    case None
    then show ?thesis by (subst parse_tokens.simps) simp
  next
    case (Some tr)
    obtain token rest' where tr: "tr = (token, rest')" by (cases tr)
    show ?thesis
    proof (cases "parse_token axisIndex token v")
      case (Inl e)
      with parse_token_failure [of axisIndex token v] Some tr show ?thesis
        by (subst parse_tokens.simps) simp
    next
      case (Inr v')
      with "1.IH" [OF Some tr [symmetric] Inr] Some tr show ?thesis
        by (subst parse_tokens.simps) simp
    qed
  qed
qed

lemma save_failure: "save d i w \<noteq> Inl divide_by_zero"
  using parse_tokens_failure [of i d parsed_init]
  by (auto simp: save_def saveCalibrationToRegistry_def calibration_record_def
      split: sum.splits option.splits)

lemma and_then_failure:
  "r \<noteq> Inl divide_by_zero \<Longrightarrow> (\<And>a. f a \<noteq> Inl divide_by_zero) \<Longrightarrow>
   and_then r f \<noteq> Inl divide_by_zero"
  by (cases r) simp_all

lemma updateValues_failure:
  assumes "LONG_window w"
  shows "updateValues sample w \<noteq> Inl divide_by_zero"
proof (cases sample)
  case None
  then show ?thesis by (simp add: updateValues_def)
next
  case (Some t)
  obtain lX lZ lRy where "t = (lX, lZ, lRy)" by (cases t)
  with Some assms show ?thesis
    by (simp add: updateValues_def Let_def LONG_window_def and_then_failure updateAxis_divisor)
qed

lemma step_failure:
  assumes "LONG_window w"
  shows "step op w \<noteq> Inl divide_by_zero"
proof (cases op)
  case (SetMin axis)
  then show ?thesis by (simp add: setAxisMin_def Let_def save_failure)
next
  case (SetMax axis)
  then show ?thesis by (simp add: setAxisMax_def Let_def save_failure and_then_failure)
next
  case Reset
  then show ?thesis by (simp add: resetCalibration_def Let_def save_failure and_then_failure)
next
  case RestoreDefaults
  then show ?thesis by (simp add: restoreDefaults_def Let_def save_failure and_then_failure)
next
  case RestoreLast
  then show ?thesis by (simp add: restoreLastCalibration_def Let_def save_failure and_then_failure)
next
  case (Tick sample)
  with updateValues_failure [OF assms, of sample] show ?thesis by simp
qed

lemma run_failure:
  "LONG_window w \<Longrightarrow> list_all LONG_operation ops \<Longrightarrow> run ops w \<noteq> Inl divide_by_zero"
proof (induction ops arbitrary: w)
  case Nil
  then show ?case by simp
next
  case (Cons op ops)
  show ?case
  proof (cases "step op w")
    case (Inl e)
    with step_failure [OF Cons.prems(1), of op] show ?thesis by simp
  next
    case (Inr w1)
    with Cons.prems have "LONG_window w1"
      by (intro step_LONG_window [of w op w1]) simp_all
    with Cons.IH [of w1] Cons.prems(2) Inr show ?thesis by simp
  qed
qed

subsection \<open>What changes the flag and the history\<close>

lemma save_keeps:
  "save d i w = Inr w' \<Longrightarrow>
   m_calibrated w' = m_calibrated w \<and> calibrationHistory w' = calibrationHistory w"
  by (simp add: save_fields)

lemma setAxisMin_preserves:
  "setAxisMin axis w = Inr w' \<Longrightarrow>
   m_calibrated w' = m_calibrated w \<and> calibrationHistory w' = calibrationHistory w"
  by (auto simp: setAxisMin_def Let_def split: if_splits dest!: save_keeps)

lemma setAxisMax_preserves:
  "setAxisMax axis w = Inr w' \<Longrightarrow>
   (m_calibrated w' \<longleftrightarrow> m_calibrated w \<or> axis \<in> {0, 1, 2}) \<and>
   calibrationHistory w' = calibrationHistory w"
  by (auto simp: setAxisMax_def Let_def and_then_Inr_iff split: if_splits
      dest!: save_keeps)

lemma restoreLastCalibration_preserves:
  "restoreLastCalibration w = Inr w' \<Longrightarrow>
   m_calibrated w' = m_calibrated w \<and> calibrationHistory w' = butlast (calibrationHistory w)"
  by (auto simp: restoreLastCalibration_def Let_def and_then_Inr_iff split: if_splits
      dest!: save_keeps)

lemma updateValues_preserves:
  "updateValues sample w = Inr w' \<Longrightarrow>
   m_calibrated w' = m_calibrated w \<and> calibrationHistory w' = calibrationHistory w"
  using updateValues_Inr [of sample w w'] by simp

lemma step_flag:
  assumes "step op w = Inr w'" "m_calibrated w'" "\<not> m_calibrated w"
  shows "\<exists>axis\<in>{0, 1, 2}. op = SetMax axis"
proof (cases op)
  case (SetMin axis)
  with assms setAxisMin_preserves [of axis w w'] show ?thesis by simp
next
  case (SetMax axis)
  with assms setAxisMax_preserves [of axis w w'] show ?thesis by simp
next
  case Reset
  with assms resetCalibration_result [of w] show ?thesis by auto
next
  case RestoreDefaults
  with assms resetCalibration_result [of "backupCurrentCalibration w"] show ?thesis
    by (auto simp: restoreDefaults_eq)
next
  case RestoreLast
  with assms restoreLastCalibration_preserves [of w w'] show ?thesis by simp
next
  case (Tick sample)
  with assms updateValues_preserves [of sample w w'] show ?thesis by simp
qed

lemma run_flag:
  "run ops w = Inr w' \<Longrightarrow> m_calibrated w' \<Longrightarrow> \<not> m_calibrated w \<Longrightarrow>
   \<exists>axis\<in>{0, 1, 2}. SetMax axis \<in> set ops"
proof (induction ops arbitrary: w)
  case Nil
  then show ?case by simp
next
  case (Cons op ops)
  from Cons.prems(1) obtain w1 where s: "step op w = Inr w1" and r: "run ops w1 = Inr w'"
    by (auto simp: and_then_Inr_iff)
  show ?case
  proof (cases "m_calibrated w1")
    case True
    from step_flag [OF s True Cons.prems(3)] show ?thesis by auto
  next
    case False
    from Cons.IH [OF r Cons.prems(2) False] show ?thesis by auto
  qed
qed


subsection \<open>Runs on concrete inputs\<close>

lemma save_eq:
  assumes "calibration_record d i = Inr r"
  shows "save d i w =
     Inr (w\<lparr>HKCU := (case HKCU w (axisPath i) of
                        None \<Rightarrow> HKCU w
                      | Some vals \<Rightarrow> (HKCU w)(axisPath i \<mapsto> vals(''Calibration'' \<mapsto> record_bytes r)))\<rparr>)"
  using assms by (cases "HKCU w (axisPath i)") (simp_all add: save_def saveCalibrationToRegistry_def)

lemma setAxisMin_X:
  assumes "is_LONG (currentXRaw w)" "is_LONG (max_r (xRange w))"
  shows "setAxisMin 0 w =
     Inr (w\<lparr>xRange := (xRange w)\<lparr>min_r := currentXRaw w\<rparr>,
            HKCU := (case HKCU w (axisPath 0) of
                       None \<Rightarrow> HKCU w
                     | Some vals \<Rightarrow> (HKCU w)(axisPath 0 \<mapsto> vals(''Calibration'' \<mapsto>
                         record_bytes \<lparr>min_c = word_of_int (currentXRaw w),
                           mid_c = (word_of_int (currentXRaw w) + word_of_int (max_r (xRange w))) div 2,
                           max_c = word_of_int (max_r (xRange w)),
                           minDeadzone = 0, maxDeadzone = 0\<rparr>)))\<rparr>)"
proof -
  let ?w1 = "w\<lparr>xRange := (xRange w)\<lparr>min_r := currentXRaw w\<rparr>\<rparr>"
  have "setAxisMin 0 w =
      save (''MinX='' @ to_wstring (currentXRaw w) @ '';MaxX='' @ to_wstring (max_r (xRange w)) @ '';'') 0 ?w1"
    by (simp add: setAxisMin_def Let_def)
  also have "\<dots> = Inr (?w1\<lparr>HKCU := (case HKCU ?w1 (axisPath 0) of
                        None \<Rightarrow> HKCU ?w1
                      | Some vals \<Rightarrow> (HKCU ?w1)(axisPath 0 \<mapsto> vals(''Calibration'' \<mapsto>
                         record_bytes \<lparr>min_c = word_of_int (currentXRaw w),
                           mid_c = (word_of_int (currentXRaw w) + word_of_int (max_r (xRange w))) div 2,
                           max_c = word_of_int (max_r (xRange w)),
                           minDeadzone = 0, maxDeadzone = 0\<rparr>)))\<rparr>)"
    by (rule save_eq [OF window_string_record(1) [OF assms]])
  finally show ?thesis by (simp cong: option.case_cong)
qed

lemma setAxisMax_X:
  assumes "is_LONG (min_r (xRange w))" "is_LONG (currentXRaw w)"
  shows "setAxisMax 0 w =
     Inr (w\<lparr>xRange := (xRange w)\<lparr>max_r := currentXRaw w\<rparr>,
            HKCU := (case HKCU w (axisPath 0) of
                       None \<Rightarrow> HKCU w
                     | Some vals \<Rightarrow> (HKCU w)(axisPath 0 \<mapsto> vals(''Calibration'' \<mapsto>
                         record_bytes \<lparr>min_c = word_of_int (min_r (xRange w)),
                           mid_c = (word_of_int (min_r (xRange w)) + word_of_int (currentXRaw w)) div 2,
                           max_c = word_of_int (currentXRaw w),
                           minDeadzone = 0, maxDeadzone = 0\<rparr>))),
            m_calibrated := True\<rparr>)"
proof -
  let ?w1 = "w\<lparr>xRange := (xRange w)\<lparr>max_r := currentXRaw w\<rparr>\<rparr>"
  have "setAxisMax 0 w =
      and_then (save (''MinX='' @ to_wstring (min_r (xRange w)) @ '';MaxX='' @ to_wstring (currentXRaw w) @ '';'') 0 ?w1)
        (\<lambda>w2. Inr (w2\<lparr>m_calibrated := True\<rparr>))"
    by (simp add: setAxisMax_def Let_def)
  also have "save (''MinX='' @ to_wstring (min_r (xRange w)) @ '';MaxX='' @ to_wstring (currentXRaw w) @ '';'') 0 ?w1
     = Inr (?w1\<lparr>HKCU := (case HKCU ?w1 (axisPath 0) of
                        None \<Rightarrow> HKCU ?w1
                      | Some vals \<Rightarrow> (HKCU ?w1)(axisPath 0 \<mapsto> vals(''Calibration'' \<mapsto>
                         record_bytes \<lparr>min_c = word_of_int (min_r (xRange w)),
                           mid_c = (word_of_int (min_r (xRange w)) + word_of_int (currentXRaw w)) div 2,
                           max_c = word_of_int (currentXRaw w),
                           minDeadzone = 0, maxDeadzone = 0\<rparr>)))\<rparr>)"
    by (rule save_eq [OF window_string_record(1) [OF assms]])
  finally show ?thesis by (simp cong: option.case_cong)
qed

lemmas run_evaluation =
  setAxisMin_X setAxisMax_X updateValues_def updateAxis_def long_div_def long_mul_def
  long_sub_def wrap_LONG_def MainWindow_init_def is_LONG_def Let_def

lemma degenerate_run:
  "run [Tick (Some (4095, 0, 0)), SetMin 0, Tick (Some (4095, 0, 0))] (MainWindow_init Map.empty) =
     Inr \<lparr>m_calibrated = False, currentXRaw = 4095, currentZRaw = 0, currentRYRaw = 0,
          xRange = \<lparr>min_r = 4095, max_r = 4095\<rparr>,
          zRange = \<lparr>min_r = 0, max_r = 4095\<rparr>,
          ryRange = \<lparr>min_r = 0, max_r = 4095\<rparr>,
          calibrationHistory = [], calBars = Some (0, 0, 0), HKCU = Map.empty\<rparr>"
  by (simp add: run_evaluation)

lemma scenario_min_only:
  "run [Tick (Some (440, 0, 0)), SetMin 0]
       (MainWindow_init [axisPath 0 \<mapsto> Map.empty]) =
     Inr \<lparr>m_calibrated = False, currentXRaw = 440, currentZRaw = 0, currentRYRaw = 0,
          xRange = \<lparr>min_r = 440, max_r = 4095\<rparr>,
          zRange = \<lparr>min_r = 0, max_r = 4095\<rparr>,
          ryRange = \<lparr>min_r = 0, max_r = 4095\<rparr>,
          calibrationHistory = [], calBars = Some (10, 0, 0),
          HKCU = [axisPath 0 \<mapsto> [''Calibration'' \<mapsto>
            record_bytes \<lparr>min_c = 440, mid_c = 2267, max_c = 4095,
                          minDeadzone = 0, maxDeadzone = 0\<rparr>]]\<rparr>"
  by (simp add: run_evaluation)

lemma scenario_run:
  "run [Tick (Some (440, 0, 0)), SetMin 0, Tick (Some (3790, 0, 0)), SetMax 0]
       (MainWindow_init [axisPath 0 \<mapsto> Map.empty]) =
     Inr \<lparr>m_calibrated = True, currentXRaw = 3790, currentZRaw = 0, currentRYRaw = 0,
          xRange = \<lparr>min_r = 440, max_r = 3790\<rparr>,
          zRange = \<lparr>min_r = 0, max_r = 4095\<rparr>,
          ryRange = \<lparr>min_r = 0, max_r = 4095\<rparr>,
          calibrationHistory = [], calBars = Some (91, 0, 0),
          HKCU = [axisPath 0 \<mapsto> [''Calibration'' \<mapsto>
            record_bytes \<lparr>min_c = 440, mid_c = 2115, max_c = 3790,
                          minDeadzone = 0, maxDeadzone = 0\<rparr>]]\<rparr>"
  by (simp add: run_evaluation)


lemma LONG_window_init: "LONG_window (MainWindow_init reg)"
  by (simp add: LONG_window_def LONG_range_def MainWindow_init_def)

subsection \<open>Degenerate ranges and the division\<close>

text \<open>
  Claim C4 says that no range with \<open>min = max\<close> ever reaches the normaliser. One does: with
  the axis at its upper end (raw 4095), Set Minimum on the default range stores \<open>{4095,
  4095}\<close>, nothing validates it, and the next tick hands it to \<^verbatim>\<open>updateAxis\<close>; the divisor
  of the chart scaling of the X axis is 0 on that tick.
\<close>

theorem degenerate_range_reaches_normalizer_counterexample:
  "map_sum id normalizer_inputs
     (run [Tick (Some (4095, 0, 0)), SetMin 0, Tick (Some (4095, 0, 0))]
        (MainWindow_init Map.empty)) =
   Inr [(4095, \<lparr>min_r = 4095, max_r = 4095\<rparr>),
        (0, \<lparr>min_r = 0, max_r = 4095\<rparr>),
        (0, \<lparr>min_r = 0, max_r = 4095\<rparr>)] \<and>
   map_sum id scaled_divisors
     (run [Tick (Some (4095, 0, 0)), SetMin 0, Tick (Some (4095, 0, 0))]
        (MainWindow_init Map.empty)) = Inr [0, 4095, 4095]"
  unfolding degenerate_run
  by (simp add: normalizer_inputs_def scaled_divisors_def long_sub_def wrap_LONG_def)

text \<open>
  Claim C4, as amended: ranges with \<open>min = max\<close> do reach the normaliser, and still the
  integer normalisation never divides by zero. On every range of \<^verbatim>\<open>LONG\<close> bounds the
  division is only reached with \<open>min < raw < max\<close>, where the divisor is not zero; so no
  sequence of operations and ticks, from any state of \<^verbatim>\<open>LONG\<close> values, ends in a division
  by zero.
\<close>

theorem normalizer_division_guarded:
  "(LONG_range rng \<longrightarrow>
      updateAxis raw rng \<noteq> Inl divide_by_zero \<and> calPercent raw rng \<noteq> Inl divide_by_zero) \<and>
   (LONG_window w \<and> list_all LONG_operation ops \<longrightarrow> run ops w \<noteq> Inl divide_by_zero)"
  using updateAxis_divisor [of rng raw] run_failure [of w ops]
  by (simp add: calPercent_eq_updateAxis)

text \<open>
  The amended claim C4 on the run that makes the X range \<open>{4095, 4095}\<close>: neither the
  normaliser on that range nor the run divides by zero.
\<close>

theorem normalizer_division_guarded_witness:
  "updateAxis 4095 \<lparr>min_r = 4095, max_r = 4095\<rparr> \<noteq> Inl divide_by_zero \<and>
   run [Tick (Some (4095, 0, 0)), SetMin 0, Tick (Some (4095, 0, 0))]
     (MainWindow_init Map.empty) \<noteq> Inl divide_by_zero"
  using normalizer_division_guarded
    [of "\<lparr>min_r = 4095, max_r = 4095\<rparr>" 4095 "MainWindow_init Map.empty"
        "[Tick (Some (4095, 0, 0)), SetMin 0, Tick (Some (4095, 0, 0))]"]
  by (simp add: LONG_window_init LONG_range_def is_LONG_def)

subsection \<open>The calibrated flag\<close>

text \<open>
  Claim C6: the calibrated flag starts false; setting a minimum never changes it (and,
  on values that fit \<^verbatim>\<open>LONG\<close>, setting a minimum does complete); and whenever a step, or a
  whole sequence of operations and ticks, takes the flag from false to true, the step is,
  or the sequence contains, a set-max on one of the axes 0, 1, 2.
\<close>

theorem calibrated_only_by_setAxisMax:
  "\<not> m_calibrated (MainWindow_init reg) \<and>
   (\<forall>w'. setAxisMin axis w = Inr w' \<longrightarrow> m_calibrated w' = m_calibrated w) \<and>
   (LONG_window w \<longrightarrow> (\<exists>w'. setAxisMin axis w = Inr w' \<and> m_calibrated w' = m_calibrated w)) \<and>
   (\<forall>w'. step op w = Inr w' \<and> m_calibrated w' \<and> \<not> m_calibrated w \<longrightarrow>
      (\<exists>a\<in>{0, 1, 2}. op = SetMax a)) \<and>
   (\<forall>w'. run ops w = Inr w' \<and> m_calibrated w' \<and> \<not> m_calibrated w \<longrightarrow>
      (\<exists>a\<in>{0, 1, 2}. SetMax a \<in> set ops))"
proof (intro conjI allI impI)
  show "\<not> m_calibrated (MainWindow_init reg)"
    by (simp add: MainWindow_init_def)
  show "m_calibrated w' = m_calibrated w" if "setAxisMin axis w = Inr w'" for w'
    using setAxisMin_preserves [OF that] by simp
  show "\<exists>w'. setAxisMin axis w = Inr w' \<and> m_calibrated w' = m_calibrated w" if "LONG_window w"
    using setAxisMin_total [OF that, of axis] by blast
  show "\<exists>a\<in>{0, 1, 2}. op = SetMax a"
    if "step op w = Inr w' \<and> m_calibrated w' \<and> \<not> m_calibrated w" for w'
    using that step_flag [of op w w'] by blast
  show "\<exists>a\<in>{0, 1, 2}. SetMax a \<in> set ops"
    if "run ops w = Inr w' \<and> m_calibrated w' \<and> \<not> m_calibrated w" for w'
    using that run_flag [of ops w w'] by blast
qed

text \<open>
  Claim C6 on the scenario of the specification: minimum set at raw 440, maximum set at
  raw 3790, on the X axis. The flag is still false after the minimum is set and true
  after the maximum is set; the ranges and the stored record are those of the scenario.
\<close>

theorem calibrated_only_by_setAxisMax_witness:
  "map_sum id m_calibrated
     (run [Tick (Some (440, 0, 0)), SetMin 0] (MainWindow_init [axisPath 0 \<mapsto> Map.empty])) =
     Inr False \<and>
   map_sum id m_calibrated
     (run [Tick (Some (440, 0, 0)), SetMin 0, Tick (Some (3790, 0, 0)), SetMax 0]
        (MainWindow_init [axisPath 0 \<mapsto> Map.empty])) = Inr True \<and>
   map_sum id xRange
     (run [Tick (Some (440, 0, 0)), SetMin 0, Tick (Some (3790, 0, 0)), SetMax 0]
        (MainWindow_init [axisPath 0 \<mapsto> Map.empty])) = Inr \<lparr>min_r = 440, max_r = 3790\<rparr> \<and>
   map_sum id HKCU
     (run [Tick (Some (440, 0, 0)), SetMin 0, Tick (Some (3790, 0, 0)), SetMax 0]
        (MainWindow_init [axisPath 0 \<mapsto> Map.empty])) =
     Inr [axisPath 0 \<mapsto> [''Calibration'' \<mapsto>
            record_bytes \<lparr>min_c = 440, mid_c = 2115, max_c = 3790,
                          minDeadzone = 0, maxDeadzone = 0\<rparr>]] \<and>
   (\<exists>a\<in>{0, 1, 2}. SetMax a \<in>
      set [Tick (Some (440, 0, 0)), SetMin 0, Tick (Some (3790, 0, 0)), SetMax 0])"
  using calibrated_only_by_setAxisMax
    [of "[axisPath 0 \<mapsto> Map.empty]" 0 "MainWindow_init [axisPath 0 \<mapsto> Map.empty]"
        "SetMax 0" "[Tick (Some (440, 0, 0)), SetMin 0, Tick (Some (3790, 0, 0)), SetMax 0]"]
  unfolding scenario_run scenario_min_only by simp

subsection \<open>Restore defaults and reset\<close>




subsection \<open>The registry keys\<close>

lemma to_wstring_digits:
  "to_wstring 0 = ''0''" "to_wstring 1 = ''1''" "to_wstring 2 = ''2''" "to_wstring 4 = ''4''"
  by (simp_all add: to_wstring_def decimal.simps digit_char_def)

text \<open>
  Claim C2 says that for each axis the key read is the key written. The writer turns the
  axis index into the registry index (0, 2, 4); the reader appends the axis index itself
  (0, 1, 2). The two literals are the same text and the keys agree for X, but for Z the
  writer uses slot 2 and the reader slot 1, for RY the writer uses slot 4 and the reader
  slot 2, which is the slot of Z.
\<close>

theorem read_key_differs_from_written_key:
  "basePath = save_path_literal \<and>
   axisPath 0 = save_path_literal @ ''0'' \<and> read_axisPath 0 = save_path_literal @ ''0'' \<and>
   axisPath 1 = save_path_literal @ ''2'' \<and> read_axisPath 1 = save_path_literal @ ''1'' \<and>
   axisPath 2 = save_path_literal @ ''4'' \<and> read_axisPath 2 = save_path_literal @ ''2'' \<and>
   axisPath 1 \<noteq> read_axisPath 1 \<and> axisPath 2 \<noteq> read_axisPath 2 \<and>
   read_axisPath 2 = axisPath 1"
  by (simp add: axisPath_def read_axisPath_def registryIndex_def basePath_def
      save_path_literal_def to_wstring_digits)

subsection \<open>The record that is written\<close>

lemma starts_with_append: "starts_with token p \<Longrightarrow> token = p @ drop (length p) token"
  by (metis append_take_drop_id starts_with_def)

lemma stoul_equals_sign: "stoul (CHR ''='' # rest) = Inl invalid_argument"
  by (simp add: stoul_def iswspace_def iswdigit_def)

lemma deadzone_token_raises:
  "starts_with token ''MinDeadzoneX='' \<Longrightarrow> stoul (drop 12 token) = Inl invalid_argument"
  "starts_with token ''MaxDeadzoneX='' \<Longrightarrow> stoul (drop 12 token) = Inl invalid_argument"
  "starts_with token ''MinDeadzoneZ='' \<Longrightarrow> stoul (drop 12 token) = Inl invalid_argument"
  "starts_with token ''MaxDeadzoneZ='' \<Longrightarrow> stoul (drop 12 token) = Inl invalid_argument"
  "starts_with token ''MinDeadzoneRY='' \<Longrightarrow> stoul (drop 13 token) = Inl invalid_argument"
  "starts_with token ''MaxDeadzoneRY='' \<Longrightarrow> stoul (drop 13 token) = Inl invalid_argument"
  by (drule starts_with_append, erule ssubst, simp add: stoul_equals_sign)+

lemma assign_Inr_iff: "assign upd r = Inr v' \<longleftrightarrow> (\<exists>n. r = Inr n \<and> v' = upd n)"
  by (cases r) (auto simp: assign_def)

lemma parse_token_deadzones:
  assumes "parse_token i token v = Inr v'"
  shows "p_minDeadzone v' = p_minDeadzone v \<and> p_maxDeadzone v' = p_maxDeadzone v"
  using assms
  by (auto simp: parse_token_def token_chain_def assign_Inr_iff deadzone_token_raises
      split: if_splits)


lemma parse_tokens_deadzones:
  "parse_tokens i rest v = Inr v' \<Longrightarrow>
   p_minDeadzone v' = p_minDeadzone v \<and> p_maxDeadzone v' = p_maxDeadzone v"
proof (induction i rest v rule: parse_tokens.induct)
  case (1 axisIndex rest v)
  show ?case
  proof (cases "find_semicolon rest")
    case None
    with "1.prems" show ?thesis
      by (subst (asm) parse_tokens.simps) simp
  next
    case (Some tr)
    obtain token rest' where tr: "tr = (token, rest')" by (cases tr)
    from "1.prems" Some tr obtain v1 where
      t: "parse_token axisIndex token v = Inr v1" and r: "parse_tokens axisIndex rest' v1 = Inr v'"
      by (subst (asm) parse_tokens.simps) (auto split: sum.splits)
    from "1.IH" [OF Some tr [symmetric] t r] parse_token_deadzones [OF t]
    show ?thesis by simp
  qed
qed

lemma calibration_record_shape:
  assumes "calibration_record calibrationData axisIndex = Inr r"
  shows "mid_c r = (min_c r + max_c r) div 2 \<and> minDeadzone r = 0 \<and> maxDeadzone r = 0"
proof -
  from assms obtain v where v: "parse_tokens axisIndex calibrationData parsed_init = Inr v"
    and r: "r = \<lparr>min_c = p_min v, mid_c = (p_min v + p_max v) div 2, max_c = p_max v,
               minDeadzone = p_minDeadzone v, maxDeadzone = p_maxDeadzone v\<rparr>"
    by (auto simp: calibration_record_def split: sum.splits)
  from parse_tokens_deadzones [OF v] r show ?thesis
    by (simp add: parsed_init_def)
qed

lemma mid_exact:
  fixes a b :: "32 word"
  assumes "unat a + unat b < 2 ^ 32"
  shows "unat ((a + b) div 2) = (unat a + unat b) div 2"
proof -
  from assms have "unat (a + b) = unat a + unat b"
    using unat_add_lem [of a b] by simp
  then show ?thesis
    by (simp add: unat_div)
qed

text \<open>
  The strings of the window carry bounds that are raw samples; for bounds that are not
  negative, the half sum does not wrap and \<open>mid\<close> is the exact floor.
\<close>

lemma window_record_mid_exact:
  fixes a b :: int
  assumes "0 \<le> a" "is_LONG a" "0 \<le> b" "is_LONG b"
  shows "uint ((word_of_int a + word_of_int b :: 32 word) div 2) = (a + b) div 2"
proof -
  from assms have ua: "unat (word_of_int a :: 32 word) = nat a"
    and ub: "unat (word_of_int b :: 32 word) = nat b"
    by (simp_all add: is_LONG_def unat_eq_nat_uint uint_word_of_int take_bit_int_eq_self)
  with assms have "unat (word_of_int a :: 32 word) + unat (word_of_int b :: 32 word) < 2 ^ 32"
    by (simp add: is_LONG_def)
  from mid_exact [OF this] ua ub
  have "unat ((word_of_int a + word_of_int b :: 32 word) div 2) = (nat a + nat b) div 2"
    by simp
  then have "uint ((word_of_int a + word_of_int b :: 32 word) div 2) = int ((nat a + nat b) div 2)"
    by (simp add: uint_nat)
  also from assms have "\<dots> = (a + b) div 2"
    by (simp add: zdiv_int)
  finally show ?thesis .
qed

lemma length_record_bytes: "length (record_bytes r) = 20"
  by (simp add: record_bytes_def dword_bytes_def)

text \<open>Each field is in the record with all of its four bytes: they give the field back.\<close>

lemma bytes_dword_dword_bytes: "bytes_dword (dword_bytes w) = w"
proof (rule bit_word_eqI)
  fix n :: nat
  assume "n < LENGTH(32)"
  then have n: "n < 32" by simp
  consider "n < 8" | "8 \<le> n" "n < 16" | "16 \<le> n" "n < 24" | "24 \<le> n"
    by linarith
  then show "bit (bytes_dword (dword_bytes w)) n \<longleftrightarrow> bit w n"
  proof cases
    case 1
    then show ?thesis
      by (auto simp: bytes_dword_def dword_bytes_def bit_simps)
  next
    case 2
    then show ?thesis
      by (auto simp: bytes_dword_def dword_bytes_def bit_simps)
  next
    case 3
    then show ?thesis
      by (auto simp: bytes_dword_def dword_bytes_def bit_simps)
  next
    case 4
    with n show ?thesis
      by (auto simp: bytes_dword_def dword_bytes_def bit_simps)
  qed
qed

lemma length_dword_bytes: "length (dword_bytes w) = 4"
  by (simp add: dword_bytes_def)

lemma bytes_record_record_bytes: "bytes_record (record_bytes r) = r"
  by (simp add: bytes_record_def record_bytes_def length_dword_bytes bytes_dword_dword_bytes)

lemma mid_wraps:
  fixes a b :: "32 word"
  shows "unat ((a + b) div 2) = ((unat a + unat b) mod 2 ^ 32) div 2"
  by (simp add: unat_div unat_word_ariths)

text \<open>
  Claim C9 says that \<open>mid\<close> is the floor of \<open>(min + max) / 2\<close> on every write. The sum is
  taken in \<^verbatim>\<open>DWORD\<close> and wraps: for the string \<open>MinX=4294967295;MaxX=3;\<close> the record written
  has \<open>mid = 1\<close>, and the floor of the half sum is 2147483649.
\<close>

theorem written_record_mid_counterexample:
  "saveCalibrationToRegistry ''MinX=4294967295;MaxX=3;'' 0 [axisPath 0 \<mapsto> Map.empty] =
     Inr [axisPath 0 \<mapsto> [''Calibration'' \<mapsto>
       record_bytes \<lparr>min_c = 4294967295, mid_c = 1, max_c = 3,
                     minDeadzone = 0, maxDeadzone = 0\<rparr>]] \<and>
   unat (1 :: 32 word) \<noteq> (unat (4294967295 :: 32 word) + unat (3 :: 32 word)) div 2"
  by (simp add: saveCalibrationToRegistry_def calibration_record_def parse_tokens.simps
      find_semicolon_def parse_token_def token_chain_def starts_with_def assign_def stoul_def
      iswspace_def iswdigit_def digits_value_def digit_value_def parsed_init_def)

text \<open>
  Claim C9, as amended: whenever \<^verbatim>\<open>saveCalibrationToRegistry\<close> writes (the call returns and
  the key of the axis exists), the value \<^verbatim>\<open>Calibration\<close> of that key becomes the 20 bytes of
  a record whose \<open>mid\<close> is \<open>(min + max) / 2\<close> of its own \<open>min\<close> and \<open>max\<close> in the 4-byte
  unsigned arithmetic of the fields, that is the floor of half of \<open>(min + max) mod 2^32\<close>,
  which is the floor of the exact half sum whenever \<open>min + max\<close> stays below \<open>2^32\<close>; whose
  two deadzones are 0, whatever the string was; and whose bytes are the five fields in
  their order, four bytes each, from which the reader gets the same five fields back.
\<close>

theorem written_record_mid_and_deadzones:
  assumes "saveCalibrationToRegistry calibrationData axisIndex reg = Inr reg'"
    and "reg (axisPath axisIndex) = Some vals"
  shows "\<exists>r. calibration_record calibrationData axisIndex = Inr r \<and>
           reg' = reg(axisPath axisIndex \<mapsto> vals(''Calibration'' \<mapsto> record_bytes r)) \<and>
           mid_c r = (min_c r + max_c r) div 2 \<and>
           unat (mid_c r) = ((unat (min_c r) + unat (max_c r)) mod 2 ^ 32) div 2 \<and>
           (unat (min_c r) + unat (max_c r) < 2 ^ 32 \<longrightarrow>
              unat (mid_c r) = (unat (min_c r) + unat (max_c r)) div 2) \<and>
           minDeadzone r = 0 \<and> maxDeadzone r = 0 \<and>
           length (record_bytes r) = 20 \<and>
           record_bytes r =
             dword_bytes (min_c r) @ dword_bytes (mid_c r) @ dword_bytes (max_c r) @
             dword_bytes 0 @ dword_bytes 0 \<and>
           bytes_record (record_bytes r) = r"
proof -
  from assms obtain r where r: "calibration_record calibrationData axisIndex = Inr r"
    and reg': "reg' = reg(axisPath axisIndex \<mapsto> vals(''Calibration'' \<mapsto> record_bytes r))"
    by (auto simp: saveCalibrationToRegistry_def split: sum.splits)
  from calibration_record_shape [OF r] have shape:
    "mid_c r = (min_c r + max_c r) div 2" "minDeadzone r = 0" "maxDeadzone r = 0"
    by simp_all
  have "unat (mid_c r) = (unat (min_c r) + unat (max_c r)) div 2"
    if "unat (min_c r) + unat (max_c r) < 2 ^ 32"
    using mid_exact [OF that] shape(1) by simp
  moreover have "unat (mid_c r) = ((unat (min_c r) + unat (max_c r)) mod 2 ^ 32) div 2"
    using mid_wraps [of "min_c r" "max_c r"] shape(1) by simp
  moreover have "record_bytes r =
      dword_bytes (min_c r) @ dword_bytes (mid_c r) @ dword_bytes (max_c r) @
      dword_bytes 0 @ dword_bytes 0"
    by (simp add: record_bytes_def shape)
  ultimately show ?thesis
    using r reg' shape length_record_bytes [of r] bytes_record_record_bytes [of r] by blast
qed

lemma test_record:
  "calibration_record ''MinX=440;MaxX=3790;MinY=0;MaxY=4096;Deadzone=0;'' 0 =
     Inr \<lparr>min_c = 440, mid_c = 2115, max_c = 3790, minDeadzone = 0, maxDeadzone = 0\<rparr>"
  by (simp add: calibration_record_def parse_tokens.simps find_semicolon_def parse_token_def
      token_chain_def starts_with_def assign_def stoul_def iswspace_def iswdigit_def
      digits_value_def digit_value_def parsed_init_def)

text \<open>
  The amended claim C9 on the call of \<^verbatim>\<open>testCalibrationHandling\<close>, with the key of the X
  axis present and empty: the record \<open>{440, 2115, 3790, 0, 0}\<close> is stored, in these 20
  bytes.
\<close>

theorem written_record_mid_and_deadzones_witness:
  "saveCalibrationToRegistry ''MinX=440;MaxX=3790;MinY=0;MaxY=4096;Deadzone=0;'' 0
     [axisPath 0 \<mapsto> Map.empty] =
   Inr [axisPath 0 \<mapsto> [''Calibration'' \<mapsto>
     [184, 1, 0, 0, 67, 8, 0, 0, 206, 14, 0, 0, 0, 0, 0, 0, 0, 0, 0, 0]]]"
proof -
  have s: "saveCalibrationToRegistry ''MinX=440;MaxX=3790;MinY=0;MaxY=4096;Deadzone=0;'' 0
      [axisPath 0 \<mapsto> Map.empty] =
    Inr [axisPath 0 \<mapsto> [''Calibration'' \<mapsto>
      record_bytes \<lparr>min_c = 440, mid_c = 2115, max_c = 3790, minDeadzone = 0, maxDeadzone = 0\<rparr>]]"
    by (simp add: saveCalibrationToRegistry_def test_record)
  have b: "record_bytes \<lparr>min_c = 440, mid_c = 2115, max_c = 3790, minDeadzone = 0, maxDeadzone = 0\<rparr> =
      [184, 1, 0, 0, 67, 8, 0, 0, 206, 14, 0, 0, 0, 0, 0, 0, 0, 0, 0, 0]"
    by (simp add: record_bytes_def dword_bytes_def)
  from written_record_mid_and_deadzones [OF s] have "length (record_bytes
      \<lparr>min_c = 440, mid_c = 2115, max_c = (3790 :: 32 word), minDeadzone = 0, maxDeadzone = 0\<rparr>) = 20"
    by (auto simp: test_record)
  with s b show ?thesis
    by simp
qed

subsection \<open>Tokens that are not recognised\<close>

lemma find_semicolon_Cons:
  "find_semicolon (c # cs) =
     (if c = CHR '';'' then Some ([], cs)
      else case find_semicolon cs of None \<Rightarrow> None | Some (t, r) \<Rightarrow> Some (c # t, r))"
  by (simp add: find_semicolon_def)

lemma tokens_from_None: "find_semicolon rest = None \<Longrightarrow> tokens_from cur rest = []"
  by (induction rest arbitrary: cur)
     (auto simp: find_semicolon_Cons find_semicolon_Nil split: if_splits option.splits)

lemma tokens_from_Some:
  "find_semicolon rest = Some (t, r) \<Longrightarrow> tokens_from cur rest = (cur @ t) # tokens_from [] r"
  by (induction rest arbitrary: cur t)
     (auto simp: find_semicolon_Cons find_semicolon_Nil split: if_splits option.splits)

lemma semicolon_tokens_None: "find_semicolon rest = None \<Longrightarrow> semicolon_tokens rest = []"
  by (simp add: semicolon_tokens_def tokens_from_None)

lemma semicolon_tokens_Some:
  "find_semicolon rest = Some (t, r) \<Longrightarrow> semicolon_tokens rest = t # semicolon_tokens r"
  by (simp add: semicolon_tokens_def tokens_from_Some)

text \<open>The loop is the sequence of its tokens, handled in order until one raises.\<close>

lemma fold_Inl: "fold (\<lambda>t r. and_then r (f t)) ts (Inl e) = Inl e"
  by (induction ts) simp_all

lemma parse_tokens_fold:
  "parse_tokens i rest v =
     fold (\<lambda>t r. and_then r (parse_token i t)) (semicolon_tokens rest) (Inr v)"
proof (induction i rest v rule: parse_tokens.induct)
  case (1 axisIndex rest v)
  show ?case
  proof (cases "find_semicolon rest")
    case None
    then show ?thesis
      by (subst parse_tokens.simps) (simp add: semicolon_tokens_None)
  next
    case (Some tr)
    obtain token rest' where tr: "tr = (token, rest')" by (cases tr)
    show ?thesis
    proof (cases "parse_token axisIndex token v")
      case (Inl e)
      with Some tr show ?thesis
        by (subst parse_tokens.simps) (simp add: semicolon_tokens_Some fold_Inl)
    next
      case (Inr v')
      with "1.IH" [OF Some tr [symmetric] Inr] Some tr show ?thesis
        by (subst parse_tokens.simps) (simp add: semicolon_tokens_Some)
    qed
  qed
qed

lemma parse_token_unrecognized:
  assumes "\<not> recognized i token"
  shows "parse_token i token v = Inr v"
proof -
  consider "i = 0" | "i = 1" | "i = 2" | "i \<noteq> 0 \<and> i \<noteq> 1 \<and> i \<noteq> 2"
    by blast
  then show ?thesis
  proof cases
    case 1
    with assms show ?thesis
      by (simp add: recognized_def recognized_prefixes_def axis_name_def parse_token_def
          token_chain_def)
  next
    case 2
    with assms show ?thesis
      by (simp add: recognized_def recognized_prefixes_def axis_name_def parse_token_def
          token_chain_def)
  next
    case 3
    with assms show ?thesis
      by (simp add: recognized_def recognized_prefixes_def axis_name_def parse_token_def
          token_chain_def)
  next
    case 4
    then show ?thesis
      by (simp add: parse_token_def)
  qed
qed

lemma fold_unrecognized:
  "list_all (\<lambda>t. \<not> recognized i t) ts \<Longrightarrow>
   fold (\<lambda>t r. and_then r (parse_token i t)) ts (Inr v) = Inr v"
  by (induction ts) (simp_all add: parse_token_unrecognized)

lemma fold_filter_recognized:
  "fold (\<lambda>t r. and_then r (parse_token i t)) (filter (recognized i) ts) r =
   fold (\<lambda>t r. and_then r (parse_token i t)) ts r"
proof (induction ts arbitrary: r)
  case Nil
  then show ?case by simp
next
  case (Cons t ts)
  show ?case
  proof (cases "recognized i t")
    case True
    with Cons show ?thesis by simp
  next
    case False
    then have "and_then r (parse_token i t) = r"
      by (cases r) (simp_all add: parse_token_unrecognized)
    with False Cons show ?thesis by simp
  qed
qed

lemma fold_field:
  assumes "fold (\<lambda>t r. and_then r (parse_token i t)) ts (Inr v) = Inr v'"
    and "\<And>t u u'. t \<in> set ts \<Longrightarrow> parse_token i t u = Inr u' \<Longrightarrow> f u' = f u"
  shows "f v' = f v"
  using assms
proof (induction ts arbitrary: v)
  case Nil
  then show ?case by simp
next
  case (Cons t ts)
  show ?case
  proof (cases "parse_token i t v")
    case (Inl e)
    with Cons.prems(1) show ?thesis by (simp add: fold_Inl)
  next
    case (Inr v1)
    with Cons.prems(1) have "fold (\<lambda>t r. and_then r (parse_token i t)) ts (Inr v1) = Inr v'"
      by simp
    then have "f v' = f v1"
      using Cons.prems(2) by (intro Cons.IH) auto
    moreover from Inr have "f v1 = f v"
      using Cons.prems(2) [of t v v1] by simp
    ultimately show ?thesis by simp
  qed
qed

lemma axis_name_cases:
  assumes "axis_name i = Some n"
  obtains "i = 0" "n = ''X''" | "i = 1" "n = ''Z''" | "i = 2" "n = ''RY''"
  using assms by (auto simp: axis_name_def split: if_splits)

lemma parse_token_min:
  assumes "parse_token i t u = Inr u'" and "axis_name i = Some n"
    and "\<not> starts_with t (''Min'' @ n @ ''='')"
  shows "p_min u' = p_min u"
  using assms(2)
proof (cases rule: axis_name_cases)
  case 1
  with assms(1,3) show ?thesis
    by (auto simp: parse_token_def token_chain_def assign_Inr_iff split: if_splits)
next
  case 2
  with assms(1,3) show ?thesis
    by (auto simp: parse_token_def token_chain_def assign_Inr_iff split: if_splits)
next
  case 3
  with assms(1,3) show ?thesis
    by (auto simp: parse_token_def token_chain_def assign_Inr_iff split: if_splits)
qed

lemma parse_token_max:
  assumes "parse_token i t u = Inr u'" and "axis_name i = Some n"
    and "\<not> starts_with t (''Max'' @ n @ ''='')"
  shows "p_max u' = p_max u"
  using assms(2)
proof (cases rule: axis_name_cases)
  case 1
  with assms(1,3) show ?thesis
    by (auto simp: parse_token_def token_chain_def assign_Inr_iff split: if_splits)
next
  case 2
  with assms(1,3) show ?thesis
    by (auto simp: parse_token_def token_chain_def assign_Inr_iff split: if_splits)
next
  case 3
  with assms(1,3) show ?thesis
    by (auto simp: parse_token_def token_chain_def assign_Inr_iff split: if_splits)
qed

lemma tokens_from_no_semicolon:
  "t \<in> set (tokens_from cur rest) \<Longrightarrow> CHR '';'' \<notin> set cur \<Longrightarrow> CHR '';'' \<notin> set t"
proof (induction rest arbitrary: cur)
  case Nil
  then show ?case by simp
next
  case (Cons c cs)
  show ?case
  proof (cases "c = CHR '';''")
    case True
    with Cons.prems have "t = cur \<or> t \<in> set (tokens_from [] cs)"
      by simp
    with Cons.prems(2) Cons.IH [of "[]"] show ?thesis
      by auto
  next
    case False
    with Cons.prems have "t \<in> set (tokens_from (cur @ [c]) cs)"
      by simp
    with False Cons.prems(2) Cons.IH [of "cur @ [c]"] show ?thesis
      by simp
  qed
qed

lemma semicolon_tokens_no_semicolon:
  "t \<in> set (semicolon_tokens rest) \<Longrightarrow> CHR '';'' \<notin> set t"
  using tokens_from_no_semicolon [of t "[]" rest] by (simp add: semicolon_tokens_def)

lemma semicolon_tokens_concat:
  "(\<And>t. t \<in> set ts \<Longrightarrow> CHR '';'' \<notin> set t) \<Longrightarrow>
   semicolon_tokens (concat (map (\<lambda>t. t @ '';'') ts)) = ts"
proof (induction ts)
  case Nil
  then show ?case by (simp add: semicolon_tokens_def)
next
  case (Cons t ts)
  then have "find_semicolon (t @ CHR '';'' # concat (map (\<lambda>t. t @ '';'') ts)) =
      Some (t, concat (map (\<lambda>t. t @ '';'') ts))"
    by (intro find_semicolon_append) simp
  from semicolon_tokens_Some [OF this] Cons show ?case
    by simp
qed

lemma calibration_record_filter:
  "calibration_record calibrationData axisIndex =
   calibration_record
     (concat (map (\<lambda>t. t @ '';'')
        (filter (recognized axisIndex) (semicolon_tokens calibrationData)))) axisIndex"
proof -
  let ?ts = "filter (recognized axisIndex) (semicolon_tokens calibrationData)"
  have "semicolon_tokens (concat (map (\<lambda>t. t @ '';'') ?ts)) = ?ts"
    by (rule semicolon_tokens_concat) (auto dest: semicolon_tokens_no_semicolon)
  then have "parse_tokens axisIndex (concat (map (\<lambda>t. t @ '';'') ?ts)) parsed_init =
      parse_tokens axisIndex calibrationData parsed_init"
    by (simp add: parse_tokens_fold fold_filter_recognized)
  then show ?thesis
    by (simp add: calibration_record_def)
qed

lemma calibration_record_unrecognized:
  assumes "list_all (\<lambda>t. \<not> recognized axisIndex t) (semicolon_tokens calibrationData)"
  shows "calibration_record calibrationData axisIndex =
     Inr \<lparr>min_c = 0, mid_c = 2047, max_c = 4095, minDeadzone = 0, maxDeadzone = 0\<rparr>"
  using fold_unrecognized [OF assms, of parsed_init]
  by (simp add: calibration_record_def parse_tokens_fold parsed_init_def)

lemma calibration_record_fields:
  assumes "calibration_record calibrationData axisIndex = Inr r"
    and "axis_name axisIndex = Some n"
  shows "list_all (\<lambda>t. \<not> starts_with t (''Min'' @ n @ ''='')) (semicolon_tokens calibrationData)
           \<Longrightarrow> min_c r = 0"
    and "list_all (\<lambda>t. \<not> starts_with t (''Max'' @ n @ ''='')) (semicolon_tokens calibrationData)
           \<Longrightarrow> max_c r = 4095"
proof -
  from assms(1) obtain v where
    v: "fold (\<lambda>t r. and_then r (parse_token axisIndex t)) (semicolon_tokens calibrationData)
          (Inr parsed_init) = Inr v"
    and r: "min_c r = p_min v" "max_c r = p_max v"
    by (auto simp: calibration_record_def parse_tokens_fold split: sum.splits)
  show "min_c r = 0"
    if "list_all (\<lambda>t. \<not> starts_with t (''Min'' @ n @ ''='')) (semicolon_tokens calibrationData)"
  proof -
    have "p_min v = p_min parsed_init"
      using v
    proof (rule fold_field)
      fix t u u'
      assume "t \<in> set (semicolon_tokens calibrationData)" and "parse_token axisIndex t u = Inr u'"
      with that show "p_min u' = p_min u"
        by (intro parse_token_min [OF _ assms(2)]) (auto simp: list_all_iff)
    qed
    with r show ?thesis by (simp add: parsed_init_def)
  qed
  show "max_c r = 4095"
    if "list_all (\<lambda>t. \<not> starts_with t (''Max'' @ n @ ''='')) (semicolon_tokens calibrationData)"
  proof -
    have "p_max v = p_max parsed_init"
      using v
    proof (rule fold_field)
      fix t u u'
      assume "t \<in> set (semicolon_tokens calibrationData)" and "parse_token axisIndex t u = Inr u'"
      with that show "p_max u' = p_max u"
        by (intro parse_token_max [OF _ assms(2)]) (auto simp: list_all_iff)
    qed
    with r show ?thesis by (simp add: parsed_init_def)
  qed
qed

text \<open>
  Claim C10: a token that begins with none of the prefixes recognised for the axis
  leaves the parsed values as they are; the record (or the exception) is the same as for
  the string with all such tokens removed; a string without any recognised token gives
  the record \<open>{0, 2047, 4095, 0, 0}\<close>, which is what is stored when the key exists; and in
  every record, \<open>min\<close> is 0 unless some token begins with the \<open>Min\<close> prefix of the axis,
  \<open>max\<close> is 4095 unless some token begins with its \<open>Max\<close> prefix, and both deadzones
  are 0.
\<close>

theorem unrecognized_tokens_ignored:
  "(\<not> recognized axisIndex token \<longrightarrow> parse_token axisIndex token v = Inr v) \<and>
   calibration_record calibrationData axisIndex =
     calibration_record
       (concat (map (\<lambda>t. t @ '';'')
          (filter (recognized axisIndex) (semicolon_tokens calibrationData)))) axisIndex \<and>
   (list_all (\<lambda>t. \<not> recognized axisIndex t) (semicolon_tokens calibrationData) \<longrightarrow>
      calibration_record calibrationData axisIndex =
        Inr \<lparr>min_c = 0, mid_c = 2047, max_c = 4095, minDeadzone = 0, maxDeadzone = 0\<rparr> \<and>
      (\<forall>vals. reg (axisPath axisIndex) = Some vals \<longrightarrow>
         saveCalibrationToRegistry calibrationData axisIndex reg =
           Inr (reg(axisPath axisIndex \<mapsto> vals(''Calibration'' \<mapsto>
             record_bytes \<lparr>min_c = 0, mid_c = 2047, max_c = 4095,
                           minDeadzone = 0, maxDeadzone = 0\<rparr>))))) \<and>
   (\<forall>r n. calibration_record calibrationData axisIndex = Inr r \<and> axis_name axisIndex = Some n \<longrightarrow>
      (list_all (\<lambda>t. \<not> starts_with t (''Min'' @ n @ ''=''))
         (semicolon_tokens calibrationData) \<longrightarrow> min_c r = 0) \<and>
      (list_all (\<lambda>t. \<not> starts_with t (''Max'' @ n @ ''=''))
         (semicolon_tokens calibrationData) \<longrightarrow> max_c r = 4095) \<and>
      minDeadzone r = 0 \<and> maxDeadzone r = 0)"
proof (intro conjI allI impI)
  show "parse_token axisIndex token v = Inr v" if "\<not> recognized axisIndex token"
    using that by (rule parse_token_unrecognized)
  show "calibration_record calibrationData axisIndex =
     calibration_record
       (concat (map (\<lambda>t. t @ '';'')
          (filter (recognized axisIndex) (semicolon_tokens calibrationData)))) axisIndex"
    by (rule calibration_record_filter)
  show "calibration_record calibrationData axisIndex =
        Inr \<lparr>min_c = 0, mid_c = 2047, max_c = 4095, minDeadzone = 0, maxDeadzone = 0\<rparr>"
    if "list_all (\<lambda>t. \<not> recognized axisIndex t) (semicolon_tokens calibrationData)"
    using that by (rule calibration_record_unrecognized)
  show "saveCalibrationToRegistry calibrationData axisIndex reg =
           Inr (reg(axisPath axisIndex \<mapsto> vals(''Calibration'' \<mapsto>
             record_bytes \<lparr>min_c = 0, mid_c = 2047, max_c = 4095,
                           minDeadzone = 0, maxDeadzone = 0\<rparr>)))"
    if "list_all (\<lambda>t. \<not> recognized axisIndex t) (semicolon_tokens calibrationData)"
      and "reg (axisPath axisIndex) = Some vals" for vals
    using calibration_record_unrecognized [OF that(1)] that(2)
    by (simp add: saveCalibrationToRegistry_def)
  show "min_c r = 0"
    if "calibration_record calibrationData axisIndex = Inr r \<and> axis_name axisIndex = Some n"
      and "list_all (\<lambda>t. \<not> starts_with t (''Min'' @ n @ ''='')) (semicolon_tokens calibrationData)"
    for r n
    using that calibration_record_fields(1) [of calibrationData axisIndex r n] by blast
  show "max_c r = 4095"
    if "calibration_record calibrationData axisIndex = Inr r \<and> axis_name axisIndex = Some n"
      and "list_all (\<lambda>t. \<not> starts_with t (''Max'' @ n @ ''='')) (semicolon_tokens calibrationData)"
    for r n
    using that calibration_record_fields(2) [of calibrationData axisIndex r n] by blast
  show "minDeadzone r = 0"
    if "calibration_record calibrationData axisIndex = Inr r \<and> axis_name axisIndex = Some n" for r n
    using that calibration_record_shape [of calibrationData axisIndex r] by blast
  show "maxDeadzone r = 0"
    if "calibration_record calibrationData axisIndex = Inr r \<and> axis_name axisIndex = Some n" for r n
    using that calibration_record_shape [of calibrationData axisIndex r] by blast
qed


text \<open>
  Claim C10 on the string of \<^verbatim>\<open>testCalibrationHandling\<close>, for the X axis: its tokens
  \<open>MinY=0\<close>, \<open>MaxY=4096\<close> and \<open>Deadzone=0\<close> are not recognised. Each leaves the values
  alone, the three alone give the default record, and the whole string gives the record
  of \<open>MinX=440;MaxX=3790;\<close>.
\<close>

theorem unrecognized_tokens_ignored_witness:
  "parse_token 0 ''MinY=0'' parsed_init = Inr parsed_init \<and>
   calibration_record ''MinY=0;MaxY=4096;Deadzone=0;'' 0 =
     Inr \<lparr>min_c = 0, mid_c = 2047, max_c = 4095, minDeadzone = 0, maxDeadzone = 0\<rparr> \<and>
   calibration_record ''MinX=440;MaxX=3790;MinY=0;MaxY=4096;Deadzone=0;'' 0 =
     calibration_record ''MinX=440;MaxX=3790;'' 0"
proof -
  have t1: "\<not> recognized 0 ''MinY=0''"
    by (simp add: recognized_def recognized_prefixes_def axis_name_def starts_with_def)
  have t2: "list_all (\<lambda>t. \<not> recognized 0 t) (semicolon_tokens ''MinY=0;MaxY=4096;Deadzone=0;'')"
    by (simp add: recognized_def recognized_prefixes_def axis_name_def starts_with_def
        semicolon_tokens_def)
  have t3: "concat (map (\<lambda>t. t @ '';'') (filter (recognized 0)
      (semicolon_tokens ''MinX=440;MaxX=3790;MinY=0;MaxY=4096;Deadzone=0;''))) =
      ''MinX=440;MaxX=3790;''"
    by (simp add: recognized_def recognized_prefixes_def axis_name_def starts_with_def
        semicolon_tokens_def)
  from unrecognized_tokens_ignored
      [of 0 "''MinY=0''" parsed_init "''MinY=0;MaxY=4096;Deadzone=0;''" Map.empty] t1 t2
  have a: "parse_token 0 ''MinY=0'' parsed_init = Inr parsed_init"
    and b: "calibration_record ''MinY=0;MaxY=4096;Deadzone=0;'' 0 =
      Inr \<lparr>min_c = 0, mid_c = 2047, max_c = 4095, minDeadzone = 0, maxDeadzone = 0\<rparr>"
    by blast+
  from unrecognized_tokens_ignored
      [of 0 "''MinY=0''" parsed_init "''MinX=440;MaxX=3790;MinY=0;MaxY=4096;Deadzone=0;''" Map.empty]
  have c: "calibration_record ''MinX=440;MaxX=3790;MinY=0;MaxY=4096;Deadzone=0;'' 0 =
      calibration_record ''MinX=440;MaxX=3790;'' 0"
    unfolding t3 by blast
  from a b c show ?thesis by blast
qed

end
